theory Spec2Isabelle
  imports Main "HOL-Library.AList"
begin

section \<open>JavaScript values\<close>

text \<open>
  The values that flow through \<^verbatim>\<open>easyAjax\<close>: the caller's option object, the settings
  record built from it, decoded JSON bodies. An object is the list of its own enumerable
  properties in enumeration order; \<open>JFun n\<close> is the caller's function number \<open>n\<close>,
  \<open>JDefaultBeforeSend\<close> the library's own function \<^verbatim>\<open>defaultBeforeSend\<close> as a
  value, \<open>JElem i\<close> a reference to the DOM element with identifier \<open>i\<close>. Numbers are the integers (the code only stores,
  compares with \<open>422\<close> and tests them for truthiness).
\<close>

datatype jsval =
    JUndefined
  | JNull
  | JBool bool
  | JNum int
  | JStr string
  | JArr "jsval list"
  | JObj "(string \<times> jsval) list"
  | JFun nat
  | JDefaultBeforeSend
  | JElem nat

text \<open>ToBoolean: what \<^verbatim>\<open>if (v)\<close>, \<^verbatim>\<open>v && w\<close>, \<^verbatim>\<open>v || w\<close> and \<^verbatim>\<open>!v\<close> test.\<close>

fun truthy :: "jsval \<Rightarrow> bool" where
  "truthy JUndefined = False"
| "truthy JNull = False"
| "truthy (JBool b) = b"
| "truthy (JNum n) = (n \<noteq> 0)"
| "truthy (JStr s) = (s \<noteq> [])"
| "truthy _ = True"

text \<open>\<^verbatim>\<open>typeof v === 'function'\<close> and \<^verbatim>\<open>typeof v === 'string'\<close>.\<close>

fun is_function :: "jsval \<Rightarrow> bool" where
  "is_function (JFun _) = True"
| "is_function JDefaultBeforeSend = True"
| "is_function _ = False"

fun is_string :: "jsval \<Rightarrow> bool" where
  "is_string (JStr _) = True"
| "is_string _ = False"

text \<open>Decimal notation of an array index, as property keys are strings.\<close>

fun show_nat :: "nat \<Rightarrow> string" where
  "show_nat n =
     (if n < 10 then [char_of (48 + n)]
      else show_nat (n div 10) @ [char_of (48 + n mod 10)])"

declare show_nat.simps [simp del]

text \<open>
  The own enumerable string-keyed properties of a value, which is what
  \<^verbatim>\<open>Object.assign\<close>, \<^verbatim>\<open>Object.keys\<close> and \<^verbatim>\<open>Object.entries\<close> enumerate: the
  properties of an object, the indices of an array or of a string, nothing for the other
  values.
\<close>

fun own_props :: "jsval \<Rightarrow> (string \<times> jsval) list" where
  "own_props (JObj kvs) = kvs"
| "own_props (JArr xs) = zip (map show_nat [0..<length xs]) xs"
| "own_props (JStr s) = zip (map show_nat [0..<length s]) (map (\<lambda>c. JStr [c]) s)"
| "own_props _ = []"

text \<open>
  Reading a property \<^verbatim>\<open>v.k\<close> for the names the code reads (\<^verbatim>\<open>error\<close>, \<^verbatim>\<open>url\<close>,
  \<^verbatim>\<open>message\<close>, \<^verbatim>\<open>errors\<close>, the setting names): an absent property is
  \<^verbatim>\<open>undefined\<close>. Reading from \<^verbatim>\<open>null\<close> or \<^verbatim>\<open>undefined\<close> raises a
  TypeError in JavaScript; the functions below test for it before they read.
\<close>

definition get_prop :: "jsval \<Rightarrow> string \<Rightarrow> jsval" where
  "get_prop v k = (case map_of (own_props v) k of Some x \<Rightarrow> x | None \<Rightarrow> JUndefined)"

text \<open>
  \<^verbatim>\<open>Object.assign(target, source)\<close>: every own property of the source is written to the
  target, in order; writing an existing key keeps its place, a new key goes last
  (\<^const>\<open>AList.update\<close>). A source that is \<^verbatim>\<open>null\<close>, \<^verbatim>\<open>undefined\<close> or another
  value without own properties is skipped. (JavaScript enumerates the keys that are
  array indices before the others; the list keeps the order of writing instead. The
  order decides nothing below: properties are read by name.)
\<close>

definition Object_assign :: "(string \<times> jsval) list \<Rightarrow> jsval \<Rightarrow> (string \<times> jsval) list" where
  "Object_assign target source =
     fold (\<lambda>(k, v). AList.update k v) (own_props source) target"

section \<open>Settings\<close>

text \<open>
  The \<^verbatim>\<open>defaults\<close> object of \<^verbatim>\<open>easyAjax\<close>; the same in both versions of the file. Its
  \<^verbatim>\<open>container\<close> is \<^verbatim>\<open>document.body\<close>, passed in as \<open>body\<close>.
\<close>

definition toastrOptions_default :: jsval where
  "toastrOptions_default = JObj
     [(''closeButton'', JBool True),
      (''debug'', JBool False),
      (''newestOnTop'', JBool True),
      (''progressBar'', JBool False),
      (''positionClass'', JStr ''toastr-top-center''),
      (''preventDuplicates'', JBool False),
      (''onclick'', JNull),
      (''showDuration'', JStr ''300''),
      (''hideDuration'', JStr ''1000''),
      (''timeOut'', JStr ''3000''),
      (''extendedTimeOut'', JStr ''1000''),
      (''showEasing'', JStr ''linear''),
      (''hideEasing'', JStr ''linear''),
      (''showMethod'', JStr ''fadeIn''),
      (''hideMethod'', JStr ''fadeOut'')]"

definition defaults :: "jsval \<Rightarrow> (string \<times> jsval) list" where
  "defaults body =
     [(''type'', JStr ''GET''),
      (''container'', body),
      (''blockUI'', JBool True),
      (''disableButton'', JBool True),
      (''buttonSelector'', JStr (''[type='' @ [CHR 0x27] @ ''submit'' @ [CHR 0x27] @ '']'')),
      (''dataType'', JStr ''json''),
      (''showToastrMsg'', JBool True),
      (''toastrOptions'', toastrOptions_default),
      (''showSwalMsg'', JBool True),
      (''swalOptions'', JObj []),
      (''redirect'', JBool True),
      (''data'', JObj []),
      (''file'', JBool False),
      (''formReset'', JBool False),
      (''async'', JBool True),
      (''debug'', JBool False),
      (''timeout'', JNum 5000),
      (''customErrorHandler'', JNull),
      (''customSuccessHandler'', JNull)]"

text \<open>\<^verbatim>\<open>const settings = Object.assign({}, defaults, options);\<close>\<close>

definition merge_settings :: "jsval \<Rightarrow> jsval \<Rightarrow> jsval" where
  "merge_settings body options =
     JObj (Object_assign (Object_assign [] (JObj (defaults body))) options)"


text \<open>
  \<^verbatim>\<open>settings.beforeSend = settings.beforeSend || defaultBeforeSend;\<close> follows the merge
  in both versions.
\<close>

definition resolve_settings :: "jsval \<Rightarrow> jsval \<Rightarrow> jsval" where
  "resolve_settings body options =
     (let settings = merge_settings body options;
          beforeSend = (if truthy (get_prop settings ''beforeSend'')
                        then get_prop settings ''beforeSend''
                        else JDefaultBeforeSend)
      in JObj (AList.update ''beforeSend'' beforeSend (own_props settings)))"

section \<open>Strings\<close>

text \<open>
  \<^verbatim>\<open>toUpperCase\<close> on the ASCII letters. A character outside ASCII is a sequence of bytes
  above 127 here and stays one, so the comparison with \<^verbatim>\<open>'GET'\<close> and \<^verbatim>\<open>'HEAD'\<close>
  comes out as in JavaScript, where no character outside ASCII has one of the letters of
  these two words as its upper case.
\<close>

definition upper_char :: "char \<Rightarrow> char" where
  "upper_char c =
     (let n = (of_char c :: nat) in if 97 \<le> n \<and> n \<le> 122 then char_of (n - 32) else c)"

definition toUpperCase :: "string \<Rightarrow> string" where
  "toUpperCase s = map upper_char s"

fun starts_with :: "string \<Rightarrow> string \<Rightarrow> bool" where
  "starts_with s [] = True"
| "starts_with [] (p # ps) = False"
| "starts_with (c # cs) (p # ps) = (c = p \<and> starts_with cs ps)"

text \<open>\<^verbatim>\<open>s.includes(p)\<close>: \<open>p\<close> occurs in \<open>s\<close> as a substring.\<close>

fun str_includes :: "string \<Rightarrow> string \<Rightarrow> bool" where
  "str_includes [] p = (p = [])"
| "str_includes (c # cs) p = (starts_with (c # cs) p \<or> str_includes cs p)"

section \<open>The document\<close>

text \<open>
  The page is a tree of elements. An element has an identifier, by which the program's
  references to it (\<open>JElem\<close>) are resolved, and what the code reads and writes of it: tag
  name, attributes, class list, the value assigned to \<^verbatim>\<open>innerText\<close>, and the
  \<^verbatim>\<open>disabled\<close> property. Identifiers are taken to be unique in the tree, and a
  reference to an element that is not in the tree behaves as an element without
  descendants and without parent.
\<close>

record element =
  eid :: nat
  tag :: string
  attrs :: "(string \<times> string) list"
  classes :: "string list"
  innerText :: jsval
  disabled :: bool

datatype node = Node (elem: element) (children: "node list")

abbreviation nid :: "node \<Rightarrow> nat" where
  "nid n \<equiv> eid (elem n)"

text \<open>The descendants of an element in document order (the element itself excluded).\<close>

fun descendants :: "node \<Rightarrow> node list" where
  "descendants (Node e ks) = concat (map (\<lambda>k. k # descendants k) ks)"

text \<open>Every element of the page, in document order.\<close>

definition nodes :: "node \<Rightarrow> node list" where
  "nodes root = root # descendants root"

definition parent_of :: "nat \<Rightarrow> node \<Rightarrow> nat option" where
  "parent_of i root =
     map_option nid (find (\<lambda>n. i \<in> set (map nid (children n))) (nodes root))"

text \<open>The element itself and its ancestors, innermost first.\<close>

fun ancestors_or_self :: "nat \<Rightarrow> node \<Rightarrow> node list" where
  "ancestors_or_self i (Node e ks) =
     (if eid e = i then [Node e ks]
      else (case concat (map (ancestors_or_self i) ks) of
              [] \<Rightarrow> []
            | p # ps \<Rightarrow> (p # ps) @ [Node e ks]))"

text \<open>
  The selectors that the code itself writes: \<^verbatim>\<open>.c\<close>, \<^verbatim>\<open>t\<close>, \<^verbatim>\<open>[a="v"]\<close> and
  \<^verbatim>\<open>t[a="v"]\<close>.
\<close>

datatype selector =
    ByClass string
  | ByTag string
  | ByAttr string string
  | ByTagAttr string string string

fun matches :: "selector \<Rightarrow> node \<Rightarrow> bool" where
  "matches (ByClass c) n = (c \<in> set (classes (elem n)))"
| "matches (ByTag t) n = (tag (elem n) = t)"
| "matches (ByAttr a v) n = (map_of (attrs (elem n)) a = Some v)"
| "matches (ByTagAttr t a v) n = (tag (elem n) = t \<and> map_of (attrs (elem n)) a = Some v)"

text \<open>
  \<^verbatim>\<open>el.querySelectorAll(sel)\<close> for the element with the identifier \<open>i\<close> (there is
  at most one, identifiers being unique): its matching descendants, in document order.
  \<^verbatim>\<open>document.querySelector\<close> searches every element of the page.
\<close>

definition select_all :: "selector \<Rightarrow> nat \<Rightarrow> node \<Rightarrow> nat list" where
  "select_all sel i root =
     concat (map (\<lambda>n. map nid (filter (matches sel) (descendants n)))
                 (filter (\<lambda>n. nid n = i) (nodes root)))"

definition document_select :: "selector \<Rightarrow> node \<Rightarrow> node option" where
  "document_select sel root = find (matches sel) (nodes root)"

text \<open>\<^verbatim>\<open>document.body\<close>: the \<^verbatim>\<open>body\<close> child of the root element, or \<^verbatim>\<open>null\<close>.\<close>

definition document_body :: "node \<Rightarrow> jsval" where
  "document_body root =
     (case find (\<lambda>k. tag (elem k) = ''body'') (children root) of
        None \<Rightarrow> JNull
      | Some b \<Rightarrow> JElem (nid b))"

text \<open>An identifier that no element of the page has, for \<^verbatim>\<open>document.createElement\<close>.\<close>

definition fresh_id :: "node \<Rightarrow> nat" where
  "fresh_id root = Suc (fold max (map nid (nodes root)) 0)"

subsection \<open>Mutations\<close>

fun update_elem :: "nat \<Rightarrow> (element \<Rightarrow> element) \<Rightarrow> node \<Rightarrow> node" where
  "update_elem i f (Node e ks) =
     Node (if eid e = i then f e else e) (map (update_elem i f) ks)"

fun remove_node :: "nat \<Rightarrow> node \<Rightarrow> node" where
  "remove_node i (Node e ks) =
     Node e (map (remove_node i) (filter (\<lambda>k. nid k \<noteq> i) ks))"

fun append_child :: "nat \<Rightarrow> node \<Rightarrow> node \<Rightarrow> node" where
  "append_child p new (Node e ks) =
     (if eid e = p then Node e (ks @ [new])
      else Node e (map (append_child p new) ks))"

datatype dom_op =
    Remove nat
  | AddClass nat string
  | RemoveClass nat string
  | AppendChild nat node
  | SetAttribute nat string string
  | RemoveAttribute nat string
  | SetDisabled nat bool

fun apply_op :: "dom_op \<Rightarrow> node \<Rightarrow> node" where
  "apply_op (Remove i) root = remove_node i root"
| "apply_op (AddClass i c) root =
     update_elem i (\<lambda>e. e\<lparr>classes := (if c \<in> set (classes e) then classes e
                                        else classes e @ [c])\<rparr>) root"
| "apply_op (RemoveClass i c) root =
     update_elem i (\<lambda>e. e\<lparr>classes := removeAll c (classes e)\<rparr>) root"
| "apply_op (AppendChild p new) root = append_child p new root"
| "apply_op (SetAttribute i k v) root =
     update_elem i (\<lambda>e. e\<lparr>attrs := AList.update k v (attrs e)\<rparr>) root"
| "apply_op (RemoveAttribute i k) root =
     update_elem i (\<lambda>e. e\<lparr>attrs := AList.delete k (attrs e)\<rparr>) root"
| "apply_op (SetDisabled i b) root = update_elem i (\<lambda>e. e\<lparr>disabled := b\<rparr>) root"


section \<open>Responses, errors and effects\<close>

text \<open>
  A response as the code sees it: the status, the \<^verbatim>\<open>content-type\<close> header
  (\<open>None\<close> when \<^verbatim>\<open>headers.get\<close> gives \<^verbatim>\<open>null\<close>), and what \<^verbatim>\<open>json()\<close> and
  \<^verbatim>\<open>text()\<close> settle to: a value, or a rejection because the body is not JSON or
  because the request was aborted while the body was read.
\<close>

datatype platform_error = JsonSyntaxError | AbortError

record response =
  status :: nat
  content_type :: "string option"
  json_body :: "platform_error + jsval"
  text_body :: "platform_error + string"

text \<open>\<^verbatim>\<open>response.ok\<close>\<close>

definition ok :: "response \<Rightarrow> bool" where
  "ok r = (200 \<le> status r \<and> status r \<le> 299)"

text \<open>
  The values that are thrown or that reject a promise: an engine TypeError, the
  SyntaxError that \<^verbatim>\<open>querySelector\<close> and \<^verbatim>\<open>querySelectorAll\<close> throw for a selector
  that is not valid (it carries the selector), a plain \<^verbatim>\<open>new Error(msg)\<close>, the error of
  \<^verbatim>\<open>validateResponse\<close> (its message holds the status, its \<^verbatim>\<open>responseJson\<close> the
  decoded body), a platform rejection, version 2's object \<^verbatim>\<open>{ response }\<close>, and a
  Response object itself used as the error value.
\<close>

datatype thrown =
    TypeError string
  | SyntaxError jsval
  | Error string
  | NetworkError nat jsval
  | Platform platform_error
  | Wrapped response
  | ResponseObj response

datatype body =
    BodyNull
  | BodyString string
  | BodyJson jsval
  | BodyFormData nat "(string \<times> jsval) list"

text \<open>
  \<open>BodyJson v\<close> is \<^verbatim>\<open>JSON.stringify(v)\<close>; \<open>BodyFormData f kvs\<close> is
  \<^verbatim>\<open>new FormData(f)\<close> for the form element \<open>f\<close>, with the pairs \<open>kvs\<close> appended.
\<close>

record request =
  req_method :: jsval
  req_headers :: "(string \<times> jsval) list"
  req_body :: body

datatype arg = AVal jsval | AErr thrown

text \<open>
  What the code does to its environment, in the order in which it does it: mutations of
  the page, notifications, console output, navigation, calls of the caller's functions,
  the network call and its timer. \<open>Unhandled e\<close> records a promise rejected with \<open>e\<close>
  that no handler takes.
\<close>

datatype event =
    Dom dom_op
  | ToastrError jsval
  | ToastrSuccess jsval
  | SwalFire jsval
  | ConsoleError string
  | ConsoleWarn string
  | Navigate jsval
  | FormReset nat
  | Call nat "arg list"
  | SetTimeout jsval
  | ClearTimeout
  | Fetch jsval request
  | Unhandled thrown

text \<open>
  The continuation that \<^verbatim>\<open>handleError\<close> attaches to the decoding of a 422 body runs
  after the promise chain of the request, completion included, has run: it waits in
  \<open>pending\<close>.
\<close>

datatype task = Decode422 response jsval

record state =
  dom :: node
  pending :: "task list"

datatype fetch_result = Rejects thrown | Resolves response

text \<open>
  The environment of one invocation: the platform's answer to
  \<^verbatim>\<open>querySelectorAll\<close> for a selector that the caller wrote (selector, page, context
  element), whether \<^verbatim>\<open>window.Swal\<close> is defined, how the network call settles, and
  whether the caller's function \<open>n\<close> throws when it is called. The answer to a
  selector is the list of the elements selected, in document order, or \<open>None\<close> when the
  value, converted to a string, is not a valid selector: the platform then throws a
  SyntaxError. The globals that the code uses without a test (\<^verbatim>\<open>toastr\<close>,
  \<^verbatim>\<open>console\<close>, \<^verbatim>\<open>fetch\<close>, \<^verbatim>\<open>AbortController\<close>) are taken to be present. A
  function of the caller's is seen as the event of its call; what it does to the page is
  outside the model.
\<close>

record world =
  css_select :: "jsval \<Rightarrow> node \<Rightarrow> nat \<Rightarrow> nat list option"
  has_Swal :: bool
  network :: fetch_result
  throws :: "nat \<Rightarrow> thrown option"

subsection \<open>Sequencing\<close>

text \<open>
  A computation runs on a state and gives a value or the thrown value, the new state and
  the events it caused. \<open>and_then\<close> is the semicolon and \<^verbatim>\<open>.then\<close>, \<open>try_catch\<close> is
  \<^verbatim>\<open>.catch\<close>, \<open>try_finally\<close> is \<^verbatim>\<open>.finally\<close>.
\<close>

type_synonym 'a js = "state \<Rightarrow> (thrown + 'a) \<times> state \<times> event list"

definition ret :: "'a \<Rightarrow> 'a js" where
  "ret a st = (Inr a, st, [])"

definition raise :: "thrown \<Rightarrow> 'a js" where
  "raise e st = (Inl e, st, [])"

definition emit :: "event \<Rightarrow> unit js" where
  "emit ev st = (Inr (), st, [ev])"

definition ask :: "(node \<Rightarrow> 'a) \<Rightarrow> 'a js" where
  "ask f st = (Inr (f (dom st)), st, [])"

definition dom_do :: "dom_op \<Rightarrow> unit js" where
  "dom_do op st = (Inr (), st\<lparr>dom := apply_op op (dom st)\<rparr>, [Dom op])"

definition schedule :: "task \<Rightarrow> unit js" where
  "schedule t st = (Inr (), st\<lparr>pending := pending st @ [t]\<rparr>, [])"

definition take_pending :: "task list js" where
  "take_pending st = (Inr (pending st), st\<lparr>pending := []\<rparr>, [])"

definition and_then :: "'a js \<Rightarrow> ('a \<Rightarrow> 'b js) \<Rightarrow> 'b js" where
  "and_then m f st =
     (case m st of
        (Inl e, st1, evs) \<Rightarrow> (Inl e, st1, evs)
      | (Inr a, st1, evs) \<Rightarrow> (case f a st1 of (r, st2, evs') \<Rightarrow> (r, st2, evs @ evs')))"

definition seq :: "unit js \<Rightarrow> 'a js \<Rightarrow> 'a js" where
  "seq m n = and_then m (\<lambda>_. n)"

definition try_catch :: "'a js \<Rightarrow> (thrown \<Rightarrow> 'a js) \<Rightarrow> 'a js" where
  "try_catch m h st =
     (case m st of
        (Inl e, st1, evs) \<Rightarrow> (case h e st1 of (r, st2, evs') \<Rightarrow> (r, st2, evs @ evs'))
      | (Inr a, st1, evs) \<Rightarrow> (Inr a, st1, evs))"

definition try_finally :: "'a js \<Rightarrow> unit js \<Rightarrow> 'a js" where
  "try_finally m fin st =
     (case m st of (r, st1, evs) \<Rightarrow>
        (case fin st1 of
           (Inl e, st2, evs') \<Rightarrow> (Inl e, st2, evs @ evs')
         | (Inr _, st2, evs') \<Rightarrow> (r, st2, evs @ evs')))"

text \<open>A promise chain that ends without a handler: a rejection is reported, not thrown.\<close>

definition settle :: "unit js \<Rightarrow> unit js" where
  "settle m = try_catch m (\<lambda>e. emit (Unhandled e))"

definition only_if :: "bool \<Rightarrow> unit js \<Rightarrow> unit js" where
  "only_if b m = (if b then m else ret ())"

fun for_each :: "'a list \<Rightarrow> ('a \<Rightarrow> unit js) \<Rightarrow> unit js" where
  "for_each [] f = ret ()"
| "for_each (x # xs) f = seq (f x) (for_each xs f)"

definition result_of :: "(thrown + 'a) \<times> state \<times> event list \<Rightarrow> thrown + 'a" where
  "result_of out = fst out"

definition state_of :: "(thrown + 'a) \<times> state \<times> event list \<Rightarrow> state" where
  "state_of out = fst (snd out)"

definition page_of :: "(thrown + 'a) \<times> state \<times> event list \<Rightarrow> node" where
  "page_of out = dom (state_of out)"

definition events_of :: "(thrown + 'a) \<times> state \<times> event list \<Rightarrow> event list" where
  "events_of out = snd (snd out)"

subsection \<open>The DOM interface\<close>

text \<open>
  A method of an element called on a value that is not an element raises a TypeError
  (\<^verbatim>\<open>null.querySelector\<close>, \<^verbatim>\<open>'x'.querySelectorAll\<close>).
\<close>

definition as_element :: "jsval \<Rightarrow> string \<Rightarrow> nat js" where
  "as_element v member = (case v of JElem i \<Rightarrow> ret i | _ \<Rightarrow> raise (TypeError member))"

fun is_element :: "jsval \<Rightarrow> bool" where
  "is_element (JElem _) = True"
| "is_element _ = False"

definition first_or_null :: "nat list \<Rightarrow> jsval" where
  "first_or_null xs = (case xs of [] \<Rightarrow> JNull | x # _ \<Rightarrow> JElem x)"

definition querySelectorAll :: "jsval \<Rightarrow> selector \<Rightarrow> nat list js" where
  "querySelectorAll el sel =
     and_then (as_element el ''querySelectorAll'') (\<lambda>i. ask (select_all sel i))"

definition querySelector :: "jsval \<Rightarrow> selector \<Rightarrow> jsval js" where
  "querySelector el sel =
     and_then (as_element el ''querySelector'') (\<lambda>i.
       ask (\<lambda>root. first_or_null (select_all sel i root)))"

text \<open>
  \<^verbatim>\<open>el.querySelectorAll(sel)\<close> for a selector that the caller wrote: it throws when
  the selector is not valid.
\<close>

definition querySelectorAll_css :: "world \<Rightarrow> jsval \<Rightarrow> jsval \<Rightarrow> nat list js" where
  "querySelectorAll_css w el sel =
     and_then (as_element el ''querySelectorAll'') (\<lambda>i.
     and_then (ask (\<lambda>root. css_select w sel root i)) (\<lambda>found.
       case found of
         None \<Rightarrow> raise (SyntaxError sel)
       | Some elements \<Rightarrow> ret elements))"

text \<open>
  \<^verbatim>\<open>el.querySelector(`[name="${field}"]`)\<close>. When the field name has no character
  that ends or escapes the quoted string, the selector is \<^verbatim>\<open>[name="field"]\<close>;
  otherwise the platform decides whether the text is a valid selector and what it
  selects.
\<close>

definition plain_name :: "string \<Rightarrow> bool" where
  "plain_name field =
     (\<forall>c \<in> set field. c \<notin> {CHR 0x22, CHR 0x5C, CHR 0x0A, CHR 0x0C, CHR 0x0D, CHR 0x00})"

definition querySelector_name :: "world \<Rightarrow> jsval \<Rightarrow> string \<Rightarrow> jsval js" where
  "querySelector_name w el field =
     (if plain_name field then querySelector el (ByAttr ''name'' field)
      else and_then (as_element el ''querySelector'') (\<lambda>i.
           and_then (ask (\<lambda>root.
             css_select w (JStr (''[name='' @ [CHR 0x22] @ field @ [CHR 0x22] @ '']'')) root i))
             (\<lambda>found.
                case found of
                  None \<Rightarrow>
                    raise (SyntaxError
                      (JStr (''[name='' @ [CHR 0x22] @ field @ [CHR 0x22] @ '']'')))
                | Some elements \<Rightarrow> ret (first_or_null elements))))"

definition parentNode :: "jsval \<Rightarrow> jsval js" where
  "parentNode el =
     and_then (as_element el ''parentNode'') (\<lambda>i.
       ask (\<lambda>root. case parent_of i root of None \<Rightarrow> JNull | Some p \<Rightarrow> JElem p))"

definition closest :: "jsval \<Rightarrow> selector \<Rightarrow> jsval js" where
  "closest el sel =
     and_then (as_element el ''closest'') (\<lambda>i.
       ask (\<lambda>root. first_or_null (map nid (filter (matches sel) (ancestors_or_self i root)))))"

text \<open>
  \<^verbatim>\<open>v.k\<close> where the code does not test \<open>v\<close> first: reading from \<^verbatim>\<open>null\<close> or
  \<^verbatim>\<open>undefined\<close> raises.
\<close>

definition read_prop :: "jsval \<Rightarrow> string \<Rightarrow> jsval js" where
  "read_prop v k =
     (if v = JNull \<or> v = JUndefined then raise (TypeError k) else ret (get_prop v k))"

text \<open>\<^verbatim>\<open>Object.entries(v)\<close>, which raises on \<^verbatim>\<open>null\<close> and \<^verbatim>\<open>undefined\<close>.\<close>

definition Object_entries :: "jsval \<Rightarrow> (string \<times> jsval) list js" where
  "Object_entries v =
     (if v = JNull \<or> v = JUndefined then raise (TypeError ''Object.entries'')
      else ret (own_props v))"

text \<open>Awaiting \<^verbatim>\<open>response.json()\<close> and \<^verbatim>\<open>response.text()\<close>.\<close>

definition response_json :: "response \<Rightarrow> jsval js" where
  "response_json r =
     (case json_body r of Inl e \<Rightarrow> raise (Platform e) | Inr v \<Rightarrow> ret v)"

definition response_text :: "response \<Rightarrow> jsval js" where
  "response_text r =
     (case text_body r of Inl e \<Rightarrow> raise (Platform e) | Inr s \<Rightarrow> ret (JStr s))"


section \<open>The functions shared by both versions\<close>

text \<open>
  The repository holds two versions of the file, 1.2.8 and 2.0.0. They differ in the
  promise chain of \<^verbatim>\<open>easyAjax\<close>, in \<^verbatim>\<open>handleError\<close> and in
  \<^verbatim>\<open>displayValidationError\<close>; these carry the suffixes \<open>_v1\<close> and \<open>_v2\<close> below.
  The other functions are the same text in both.
\<close>

definition toggleButtonLoading :: "world \<Rightarrow> jsval \<Rightarrow> bool \<Rightarrow> jsval \<Rightarrow> unit js" where
  "toggleButtonLoading w selector isLoading settings =
     (if \<not> truthy selector
      then emit (ConsoleWarn ''toggleButtonLoading: Selector is not provided'')
      else and_then
        (case selector of
           JElem b \<Rightarrow> ret (Some [b])
         | _ \<Rightarrow>
           if truthy settings \<and> is_element (get_prop settings ''container'')
           then and_then (querySelectorAll_css w (get_prop settings ''container'') selector)
                  (\<lambda>bs. ret (Some bs))
           else seq (emit (ConsoleWarn
                  (''toggleButtonLoading: Invalid or missing container in settings, ''
                   @ ''and selector is not a valid element'')))
                  (ret None))
        (\<lambda>buttons. case buttons of
           None \<Rightarrow> ret ()
         | Some bs \<Rightarrow> for_each bs (\<lambda>button.
             if isLoading
             then seq (dom_do (SetAttribute button ''data-kt-indicator'' ''on''))
                      (dom_do (SetDisabled button True))
             else seq (dom_do (RemoveAttribute button ''data-kt-indicator''))
                      (dom_do (SetDisabled button False)))))"

definition defaultBeforeSend :: "world \<Rightarrow> jsval \<Rightarrow> unit js" where
  "defaultBeforeSend w settings =
     only_if (truthy settings \<and> truthy (get_prop settings ''disableButton'')
              \<and> truthy (get_prop settings ''buttonSelector'')
              \<and> truthy (get_prop settings ''container''))
       (toggleButtonLoading w (get_prop settings ''buttonSelector'') True settings)"

text \<open>
  Calling a value \<^verbatim>\<open>f(args)\<close>: a function of the caller is recorded and returns or
  throws as the environment says, the library's \<^verbatim>\<open>defaultBeforeSend\<close> runs on its
  first argument, anything else is not callable.
\<close>

definition call :: "world \<Rightarrow> jsval \<Rightarrow> arg list \<Rightarrow> unit js" where
  "call w f args =
     (case f of
        JFun n \<Rightarrow> seq (emit (Call n args))
                    (case throws w n of None \<Rightarrow> ret () | Some e \<Rightarrow> raise e)
      | JDefaultBeforeSend \<Rightarrow>
          (case args of AVal settings # _ \<Rightarrow> defaultBeforeSend w settings | _ \<Rightarrow> ret ())
      | _ \<Rightarrow> raise (TypeError ''not a function''))"

definition validateResponse :: "response \<Rightarrow> response js" where
  "validateResponse response =
     (if \<not> ok response
      then and_then (response_json response) (\<lambda>json.
             raise (NetworkError (status response) json))
      else ret response)"

definition processContentType :: "response \<Rightarrow> jsval js" where
  "processContentType response =
     (case content_type response of
        None \<Rightarrow> raise (TypeError ''includes'')
      | Some contentType \<Rightarrow>
          if str_includes contentType ''application/json'' then response_json response
          else if str_includes contentType ''text/html'' then response_text response
          else raise (Error (''Unsupported content type: '' @ contentType)))"

definition clearValidationErrors :: "jsval \<Rightarrow> unit js" where
  "clearValidationErrors container =
     and_then (querySelectorAll container (ByClass ''invalid-feedback'')) (\<lambda>elements.
     seq (for_each elements (\<lambda>element. dom_do (Remove element)))
    (and_then (querySelectorAll container (ByClass ''is-invalid'')) (\<lambda>elements.
     for_each elements (\<lambda>element. dom_do (RemoveClass element ''is-invalid'')))))"

definition handleSuccess :: "jsval \<Rightarrow> jsval \<Rightarrow> unit js" where
  "handleSuccess response settings =
     seq (only_if (truthy (get_prop settings ''container''))
            (and_then (querySelectorAll (get_prop settings ''container'')
                         (ByClass ''invalid-feedback'')) (\<lambda>els.
             seq (for_each els (\<lambda>el. dom_do (Remove el)))
            (and_then (querySelectorAll (get_prop settings ''container'')
                         (ByClass ''is-invalid'')) (\<lambda>inputs.
             for_each inputs (\<lambda>input. dom_do (RemoveClass input ''is-invalid'')))))))
    (seq (only_if (truthy (get_prop settings ''redirect'') \<and> truthy (get_prop response ''url''))
            (emit (Navigate (get_prop response ''url''))))
    (seq (only_if (truthy (get_prop settings ''formReset''))
            (and_then (querySelector (get_prop settings ''container'') (ByTag ''form''))
               (\<lambda>form. and_then (as_element form ''reset'') (\<lambda>f. emit (FormReset f)))))
         (only_if (truthy (get_prop settings ''showToastrMsg'')
                   \<and> truthy (get_prop response ''message''))
            (emit (ToastrSuccess (get_prop response ''message''))))))"

definition processResponse :: "world \<Rightarrow> jsval \<Rightarrow> jsval \<Rightarrow> unit js" where
  "processResponse w data settings =
     seq (only_if (truthy data \<and> \<not> truthy (get_prop data ''error''))
            (handleSuccess data settings))
         (if truthy (get_prop settings ''customSuccessHandler'')
          then call w (get_prop settings ''customSuccessHandler'') [AVal data, AVal settings]
          else only_if (truthy (get_prop settings ''success''))
                 (call w (get_prop settings ''success'') [AVal data]))"

definition handleFailure :: "world \<Rightarrow> jsval \<Rightarrow> jsval \<Rightarrow> jsval \<Rightarrow> unit js" where
  "handleFailure w response settings messageType =
     seq (only_if (truthy (get_prop settings ''showToastrMsg'')
                   \<and> truthy (get_prop response ''message''))
            (emit (ToastrError (get_prop response ''message''))))
         (only_if (truthy (get_prop settings ''showSwalMsg'') \<and> has_Swal w)
            (emit (SwalFire (JObj
               (Object_assign (Object_assign [] (get_prop settings ''swalOptions''))
                  (JObj [(''text'', get_prop response ''message''),
                         (''icon'', messageType)]))))))"

definition createFormData :: "jsval \<Rightarrow> body js" where
  "createFormData settings =
     and_then (querySelector (get_prop settings ''container'') (ByTag ''form'')) (\<lambda>form.
       case form of
         JElem f \<Rightarrow>
           if get_prop settings ''data'' = JNull \<or> get_prop settings ''data'' = JUndefined
           then raise (TypeError ''Object.keys'')
           else ret (BodyFormData f (own_props (get_prop settings ''data'')))
       | _ \<Rightarrow> raise (Error ''Form not found in the specified container.''))"

section \<open>Building the request\<close>

text \<open>
  The part of \<^verbatim>\<open>easyAjax\<close> that reads the CSRF token and fills \<^verbatim>\<open>requestOptions\<close>
  (the same statements in both versions). \<open>request_base\<close> is the object literal that
  \<^verbatim>\<open>requestOptions\<close> starts as, for the \<^verbatim>\<open>meta\<close> element found; the result of
  \<^verbatim>\<open>document.querySelector(...)\<close> is dereferenced whatever the method, and so is
  \<^verbatim>\<open>settings.type\<close>.
\<close>

definition request_base :: "jsval \<Rightarrow> node \<Rightarrow> request" where
  "request_base settings meta =
     \<lparr>req_method = get_prop settings ''type'',
      req_headers =
        [(''X-CSRF-TOKEN'',
          if truthy (get_prop settings ''headers'')
             \<and> truthy (get_prop (get_prop settings ''headers'') ''X-CSRF-TOKEN'')
          then get_prop (get_prop settings ''headers'') ''X-CSRF-TOKEN''
          else (case map_of (attrs (elem meta)) ''content'' of
                  None \<Rightarrow> JNull
                | Some csrfToken \<Rightarrow> JStr csrfToken)),
         (''X-Requested-With'', JStr ''XMLHttpRequest'')],
      req_body = BodyNull\<rparr>"

definition requestOptions :: "jsval \<Rightarrow> request js" where
  "requestOptions settings =
     and_then (ask (document_select (ByTagAttr ''meta'' ''name'' ''csrf-token''))) (\<lambda>meta.
       case meta of
         None \<Rightarrow> raise (TypeError ''getAttribute'')
       | Some m \<Rightarrow>
          (case get_prop settings ''type'' of
             JStr type \<Rightarrow>
               if toUpperCase type \<noteq> ''GET'' \<and> toUpperCase type \<noteq> ''HEAD'' then
                 if truthy (get_prop settings ''file'') then
                   and_then (createFormData settings) (\<lambda>formData.
                     ret ((request_base settings m)\<lparr>req_body := formData\<rparr>))
                 else (case get_prop settings ''data'' of
                         JStr data \<Rightarrow>
                           ret ((request_base settings m)
                             \<lparr>req_headers := req_headers (request_base settings m) @
                                [(''Content-Type'', JStr ''application/x-www-form-urlencoded'')],
                              req_body := BodyString data\<rparr>)
                       | data \<Rightarrow>
                           ret ((request_base settings m)
                             \<lparr>req_headers := req_headers (request_base settings m) @
                                [(''Content-Type'', JStr ''application/json'')],
                              req_body := BodyJson data\<rparr>))
               else ret (request_base settings m)
           | _ \<Rightarrow> raise (TypeError ''toUpperCase'')))"

text \<open>The call of \<^verbatim>\<open>settings.beforeSend\<close>, or of the default.\<close>

definition run_beforeSend :: "world \<Rightarrow> jsval \<Rightarrow> unit js" where
  "run_beforeSend w settings =
     (if truthy (get_prop settings ''beforeSend'')
         \<and> is_function (get_prop settings ''beforeSend'')
      then call w (get_prop settings ''beforeSend'') [AVal settings]
      else defaultBeforeSend w settings)"

text \<open>The function passed to \<^verbatim>\<open>.finally\<close>.\<close>

definition completion :: "world \<Rightarrow> jsval \<Rightarrow> unit js" where
  "completion w settings =
     seq (emit ClearTimeout)
    (seq (only_if (truthy (get_prop settings ''disableButton''))
            (toggleButtonLoading w (get_prop settings ''buttonSelector'') False settings))
         (only_if (truthy (get_prop settings ''complete''))
            (call w (get_prop settings ''complete'') [])))"

text \<open>Awaiting \<^verbatim>\<open>fetch(settings.url, requestOptions)\<close>.\<close>

definition fetch :: "world \<Rightarrow> jsval \<Rightarrow> request \<Rightarrow> response js" where
  "fetch w url options =
     seq (emit (Fetch url options))
         (case network w of Rejects e \<Rightarrow> raise e | Resolves r \<Rightarrow> ret r)"


section \<open>Version 2.0.0\<close>

definition displayValidationError_v2 :: "jsval \<Rightarrow> jsval \<Rightarrow> unit js" where
  "displayValidationError_v2 inputElement message =
     (if \<not> truthy inputElement then ret ()
      else
        and_then (parentNode inputElement) (\<lambda>parent.
        and_then (querySelector parent (ByClass ''invalid-feedback'')) (\<lambda>existingError.
        seq (only_if (truthy existingError)
               (and_then (as_element existingError ''remove'') (\<lambda>e. dom_do (Remove e))))
       (seq (and_then (as_element inputElement ''classList'') (\<lambda>i.
               dom_do (AddClass i ''is-invalid'')))
       (and_then (ask fresh_id) (\<lambda>errorDiv.
        and_then (parentNode inputElement) (\<lambda>parent.
        and_then (as_element parent ''appendChild'') (\<lambda>p.
          dom_do (AppendChild p
            (Node \<lparr>eid = errorDiv, tag = ''div'', attrs = [],
                   classes = [''invalid-feedback''], innerText = message,
                   disabled = False\<rparr> []))))))))))"

text \<open>\<^verbatim>\<open>error.response\<close>\<close>

fun error_response :: "thrown \<Rightarrow> response option" where
  "error_response (Wrapped r) = Some r"
| "error_response _ = None"

text \<open>
  \<^verbatim>\<open>handleError\<close> of version 2.0.0. For a 422 it only starts decoding the body; the
  function given to \<^verbatim>\<open>.then\<close> is \<open>show_validation_v2\<close>, and \<open>run_task_v2\<close> is the
  whole \<^verbatim>\<open>response.json().then(...).catch(...)\<close>.
\<close>

definition handleError_v2 :: "thrown \<Rightarrow> jsval \<Rightarrow> unit js" where
  "handleError_v2 error settings =
     (case error_response error of
        Some response \<Rightarrow>
          if status response = 422 then schedule (Decode422 response settings)
          else emit (ToastrError (JStr ''An unexpected error occurred.''))
      | None \<Rightarrow>
          emit (ToastrError (JStr
            ''A network error occurred. Please check your connection and try again.'')))"

definition show_validation_v2 :: "world \<Rightarrow> jsval \<Rightarrow> jsval \<Rightarrow> unit js" where
  "show_validation_v2 w errorJson settings =
     and_then (read_prop errorJson ''message'') (\<lambda>message.
     seq (emit (ToastrError (if truthy message then message
                             else JStr ''Validation errors occurred.'')))
         (only_if (truthy (get_prop errorJson ''errors''))
            (and_then (Object_entries (get_prop errorJson ''errors'')) (\<lambda>entries.
             for_each entries (\<lambda>(field, messages).
               and_then (querySelector_name w (get_prop settings ''container'') field)
                 (\<lambda>inputElement.
                    only_if (truthy inputElement)
                      (and_then (read_prop messages ''0'') (\<lambda>first.
                         displayValidationError_v2 inputElement first))))))))"

fun run_task_v2 :: "world \<Rightarrow> task \<Rightarrow> unit js" where
  "run_task_v2 w (Decode422 response settings) =
     try_catch
       (and_then (response_json response) (\<lambda>errorJson.
          show_validation_v2 w errorJson settings))
       (\<lambda>jsonError. emit (ConsoleError ''Error parsing JSON response:''))"

text \<open>
  The promise chain of \<^verbatim>\<open>easyAjax\<close> in version 2.0.0, from \<^verbatim>\<open>fetch\<close> to
  \<^verbatim>\<open>.finally\<close>.
\<close>

definition promise_chain_v2 :: "world \<Rightarrow> jsval \<Rightarrow> request \<Rightarrow> unit js" where
  "promise_chain_v2 w settings options =
     try_finally
       (try_catch
          (and_then (fetch w (get_prop settings ''url'') options) (\<lambda>response.
           and_then (if \<not> ok response then raise (Wrapped response)
                     else ret response) (\<lambda>response.
           and_then (validateResponse response) (\<lambda>response.
           and_then (processContentType response) (\<lambda>data.
           processResponse w data settings)))))
          (\<lambda>error. handleError_v2 error settings))
       (completion w settings)"

section \<open>Version 1.2.8\<close>

definition displayValidationError_v1 :: "jsval \<Rightarrow> jsval \<Rightarrow> unit js" where
  "displayValidationError_v1 inputElement message =
     (if \<not> truthy inputElement then ret ()
      else
        and_then (closest inputElement (ByClass ''form-group'')) (\<lambda>group.
        and_then (if truthy group then ret group else parentNode inputElement) (\<lambda>formGroup.
        and_then (querySelector formGroup (ByClass ''invalid-feedback'')) (\<lambda>existingError.
        seq (only_if (truthy existingError)
               (and_then (as_element existingError ''remove'') (\<lambda>e. dom_do (Remove e))))
       (seq (and_then (as_element inputElement ''classList'') (\<lambda>i.
               dom_do (AddClass i ''is-invalid'')))
       (and_then (ask fresh_id) (\<lambda>errorDiv.
        and_then (as_element formGroup ''appendChild'') (\<lambda>p.
          dom_do (AppendChild p
            (Node \<lparr>eid = errorDiv, tag = ''div'', attrs = [],
                   classes = [''invalid-feedback''], innerText = message,
                   disabled = False\<rparr> []))))))))))"

text \<open>\<^verbatim>\<open>error.status\<close>: only a Response has one.\<close>

fun error_status :: "thrown \<Rightarrow> jsval" where
  "error_status (ResponseObj r) = JNum (int (status r))"
| "error_status _ = JUndefined"

text \<open>
  \<^verbatim>\<open>handleError\<close> of version 1.2.8. \<^verbatim>\<open>error.json()\<close> exists on a Response only; the
  function given to \<^verbatim>\<open>.then\<close> is \<open>show_validation_v1\<close>, and nothing catches what it
  throws.
\<close>

definition handleError_v1 :: "world \<Rightarrow> thrown \<Rightarrow> jsval \<Rightarrow> unit js" where
  "handleError_v1 w error settings =
     seq (emit (ConsoleError ''Error in fetch operation:''))
    (seq (if error_status error = JNum 422
          then (case error of
                  ResponseObj r \<Rightarrow> schedule (Decode422 r settings)
                | _ \<Rightarrow> raise (TypeError ''json''))
          else emit (ToastrError (JStr ''An error occurred. Please try again.'')))
         (if truthy (get_prop settings ''customErrorHandler'')
          then call w (get_prop settings ''customErrorHandler'') [AErr error, AVal settings]
          else only_if (truthy (get_prop settings ''error''))
                 (call w (get_prop settings ''error'') [AErr error])))"

definition show_validation_v1 :: "world \<Rightarrow> jsval \<Rightarrow> jsval \<Rightarrow> unit js" where
  "show_validation_v1 w errorJson settings =
     seq (emit (ConsoleError ''Validation errors:''))
    (and_then (read_prop errorJson ''message'') (\<lambda>message.
     seq (emit (ToastrError message))
    (and_then (Object_entries (get_prop errorJson ''errors'')) (\<lambda>entries.
     for_each entries (\<lambda>(field, messages).
       and_then (querySelector_name w (get_prop settings ''container'') field)
         (\<lambda>inputElement.
            and_then (read_prop messages ''0'') (\<lambda>first.
              displayValidationError_v1 inputElement first)))))))"

fun run_task_v1 :: "world \<Rightarrow> task \<Rightarrow> unit js" where
  "run_task_v1 w (Decode422 response settings) =
     settle
       (and_then (response_json response) (\<lambda>errorJson.
          show_validation_v1 w errorJson settings))"

text \<open>The promise chain of \<^verbatim>\<open>easyAjax\<close> in version 1.2.8.\<close>

definition promise_chain_v1 :: "world \<Rightarrow> jsval \<Rightarrow> request \<Rightarrow> unit js" where
  "promise_chain_v1 w settings options =
     try_finally
       (try_catch
          (and_then (fetch w (get_prop settings ''url'') options) (\<lambda>response.
           and_then (validateResponse response) (\<lambda>response.
           and_then (processContentType response) (\<lambda>data.
           processResponse w data settings))))
          (\<lambda>error. handleError_v1 w error settings))
       (completion w settings)"

section \<open>The entry point\<close>

text \<open>
  \<^verbatim>\<open>easyAjax(options)\<close> on a page. Up to the call of \<^verbatim>\<open>fetch\<close> the two versions
  are the same statements; the version selects the promise chain and the continuation
  of a 422. The result is \<open>Inl e\<close> when \<^verbatim>\<open>easyAjax\<close> itself throws \<open>e\<close>, which
  happens before the request is issued or not at all; what happens after the call has
  returned is part of the events, and a rejection that nothing handles is the event
  \<open>Unhandled\<close>.
\<close>

datatype version = V1 | V2

fun promise_chain :: "version \<Rightarrow> world \<Rightarrow> jsval \<Rightarrow> request \<Rightarrow> unit js" where
  "promise_chain V1 = promise_chain_v1"
| "promise_chain V2 = promise_chain_v2"

fun run_task :: "version \<Rightarrow> world \<Rightarrow> task \<Rightarrow> unit js" where
  "run_task V1 = run_task_v1"
| "run_task V2 = run_task_v2"

definition easyAjax ::
  "version \<Rightarrow> world \<Rightarrow> jsval \<Rightarrow> node \<Rightarrow> (thrown + unit) \<times> state \<times> event list" where
  "easyAjax v w options page =
     (and_then (ask document_body) (\<lambda>body.
        let settings = resolve_settings body options in
        seq (clearValidationErrors (get_prop settings ''container''))
       (and_then (requestOptions settings) (\<lambda>options.
        seq (run_beforeSend w settings)
       (seq (emit (SetTimeout (get_prop settings ''timeout'')))
       (seq (settle (promise_chain v w settings options))
            (and_then take_pending (\<lambda>tasks. for_each tasks (run_task v w)))))))))
     \<lparr>dom = page, pending = []\<rparr>"

section \<open>Predicates on runs\<close>

text \<open>Every event that the computation causes, from whatever state, satisfies \<open>P\<close>.\<close>

definition only :: "(event \<Rightarrow> bool) \<Rightarrow> 'a js \<Rightarrow> bool" where
  "only P m = (\<forall>st. list_all P (events_of (m st)))"

text \<open>The computation keeps the property \<open>Q\<close> of the page.\<close>

definition preserves :: "(node \<Rightarrow> bool) \<Rightarrow> 'a js \<Rightarrow> bool" where
  "preserves Q m = (\<forall>st. Q (dom st) \<longrightarrow> Q (dom (state_of (m st))))"


text \<open>
  The events of the success steps of \<^verbatim>\<open>handleSuccess\<close>: clearing the validation
  marks, the redirect, the form reset and the success notification.
\<close>

fun success_ui :: "event \<Rightarrow> bool" where
  "success_ui (Dom (Remove i)) = True"
| "success_ui (Dom (RemoveClass i c)) = True"
| "success_ui (Navigate u) = True"
| "success_ui (FormReset f) = True"
| "success_ui (ToastrSuccess m) = True"
| "success_ui _ = False"

section \<open>An example page\<close>

text \<open>
  A page with the CSRF \<^verbatim>\<open>meta\<close> tag and a form of two named inputs, each in its own
  \<^verbatim>\<open>div\<close>, and a submit button; the same page without the \<^verbatim>\<open>meta\<close> tag; and a page
  without a form. In the example environment the platform knows one selector,
  \<^verbatim>\<open>[type='submit']\<close>, which is the default of \<^verbatim>\<open>buttonSelector\<close>, and rejects every
  other one as not valid; the caller's function 2 throws.
\<close>

definition plain_element :: "nat \<Rightarrow> string \<Rightarrow> (string \<times> string) list \<Rightarrow> element" where
  "plain_element i t a =
     \<lparr>eid = i, tag = t, attrs = a, classes = [], innerText = JUndefined, disabled = False\<rparr>"

definition example_form :: node where
  "example_form =
     Node (plain_element 4 ''form'' [])
       [Node (plain_element 5 ''div'' []) [Node (plain_element 6 ''input'' [(''name'', ''email'')]) []],
        Node (plain_element 7 ''div'' []) [Node (plain_element 8 ''input'' [(''name'', ''name'')]) []],
        Node (plain_element 9 ''button'' [(''type'', ''submit'')]) []]"

definition example_page :: node where
  "example_page =
     Node (plain_element 0 ''html'' [])
       [Node (plain_element 1 ''head'' [])
          [Node (plain_element 2 ''meta'' [(''name'', ''csrf-token''), (''content'', ''tok'')]) []],
        Node (plain_element 3 ''body'' []) [example_form]]"

definition page_without_meta :: node where
  "page_without_meta =
     Node (plain_element 0 ''html'' [])
       [Node (plain_element 1 ''head'' []) [], Node (plain_element 3 ''body'' []) [example_form]]"

definition page_without_form :: node where
  "page_without_form =
     Node (plain_element 0 ''html'' [])
       [Node (plain_element 1 ''head'' [])
          [Node (plain_element 2 ''meta'' [(''name'', ''csrf-token''), (''content'', ''tok'')]) []],
        Node (plain_element 3 ''body'' []) [Node (plain_element 9 ''button'' [(''type'', ''submit'')]) []]]"

definition json_response :: "nat \<Rightarrow> jsval \<Rightarrow> response" where
  "json_response s body =
     \<lparr>status = s, content_type = Some ''application/json'', json_body = Inr body,
      text_body = Inr []\<rparr>"

definition undecodable_response :: "nat \<Rightarrow> response" where
  "undecodable_response s =
     \<lparr>status = s, content_type = Some ''text/plain'', json_body = Inl JsonSyntaxError,
      text_body = Inr ''Internal Server Error''\<rparr>"

definition example_world :: "fetch_result \<Rightarrow> world" where
  "example_world outcome =
     \<lparr>css_select = (\<lambda>selector root i.
        if selector = JStr (''[type='' @ [CHR 0x27] @ ''submit'' @ [CHR 0x27] @ '']'')
        then Some (select_all (ByAttr ''type'' ''submit'') i root)
        else None),
      has_Swal = True,
      network = outcome,
      throws = (\<lambda>n. if n = 2 then Some (Error ''boom'') else None)\<rparr>"

text \<open>
  The body of a 422 as the server sends it: a message and, for each field, the list of
  its messages. The field \<^verbatim>\<open>zip\<close> has no input on the example page.
\<close>

definition validation_body :: jsval where
  "validation_body =
     JObj [(''message'', JStr ''The given data was invalid.''),
           (''errors'', JObj
              [(''email'', JArr [JStr ''Email is required'', JStr ''Email is malformed'']),
               (''name'', JArr [JStr ''Name is required'']),
               (''zip'', JArr [JStr ''Zip is required''])])]"

section \<open>Predicates on events\<close>

fun not_fetch :: "event \<Rightarrow> bool" where
  "not_fetch (Fetch u r) = False"
| "not_fetch _ = True"

fun fetch_is :: "jsval \<Rightarrow> request \<Rightarrow> event \<Rightarrow> bool" where
  "fetch_is url req (Fetch u r) = (u = url \<and> r = req)"
| "fetch_is url req _ = True"

fun not_success_toast :: "event \<Rightarrow> bool" where
  "not_success_toast (ToastrSuccess m) = False"
| "not_success_toast _ = True"

fun is_swal :: "event \<Rightarrow> bool" where
  "is_swal (SwalFire options) = True"
| "is_swal _ = False"

section \<open>Example invocations\<close>

text \<open>
  A search with a lower-case method, data and a CSRF header of the caller's; a file
  upload; a form submission with both error callbacks; and the requests that they
  issue on the example page.
\<close>

definition search_options :: jsval where
  "search_options =
     JObj [(''type'', JStr ''get''), (''url'', JStr ''/search''),
           (''data'', JObj [(''q'', JStr ''isabelle'')]),
           (''headers'', JObj [(''X-CSRF-TOKEN'', JStr ''mine'')])]"

definition search_request :: request where
  "search_request =
     \<lparr>req_method = JStr ''get'',
      req_headers = [(''X-CSRF-TOKEN'', JStr ''mine''),
                     (''X-Requested-With'', JStr ''XMLHttpRequest'')],
      req_body = BodyNull\<rparr>"

definition upload_options :: jsval where
  "upload_options =
     JObj [(''type'', JStr ''POST''), (''url'', JStr ''/upload''), (''file'', JBool True),
           (''data'', JObj [(''note'', JStr ''hi'')])]"

definition upload_request :: request where
  "upload_request =
     \<lparr>req_method = JStr ''POST'',
      req_headers = [(''X-CSRF-TOKEN'', JStr ''tok''),
                     (''X-Requested-With'', JStr ''XMLHttpRequest'')],
      req_body = BodyFormData 4 [(''note'', JStr ''hi'')]\<rparr>"

definition save_options :: jsval where
  "save_options =
     JObj [(''type'', JStr ''POST''), (''url'', JStr ''/save''),
           (''customErrorHandler'', JFun 1), (''error'', JFun 3)]"

definition save_request :: request where
  "save_request =
     \<lparr>req_method = JStr ''POST'',
      req_headers = [(''X-CSRF-TOKEN'', JStr ''tok''),
                     (''X-Requested-With'', JStr ''XMLHttpRequest''),
                     (''Content-Type'', JStr ''application/json'')],
      req_body = BodyJson (JObj [])\<rparr>"

definition list_request :: request where
  "list_request =
     \<lparr>req_method = JStr ''GET'',
      req_headers = [(''X-CSRF-TOKEN'', JStr ''tok''),
                     (''X-Requested-With'', JStr ''XMLHttpRequest'')],
      req_body = BodyNull\<rparr>"


section \<open>Runs compared up to the alert settings\<close>

text \<open>
  The two settings that only \<^verbatim>\<open>handleFailure\<close> reads. \<open>strip_val\<close> removes them from
  an object; a call of a function of the caller's is compared with them removed from its
  arguments, the settings object that the callbacks receive among them, and so is a
  waiting continuation, which holds the settings. Two computations are \<open>sim\<close>ilar when,
  started on states that are alike, they give the same result, states that are alike and
  the same events up to that removal.
\<close>

definition swal_key :: "string \<Rightarrow> bool" where
  "swal_key k \<longleftrightarrow> k = ''showSwalMsg'' \<or> k = ''swalOptions''"

fun strip_val :: "jsval \<Rightarrow> jsval" where
  "strip_val (JObj kvs) = JObj (filter (\<lambda>kv. \<not> swal_key (fst kv)) kvs)"
| "strip_val v = v"

fun strip_arg :: "arg \<Rightarrow> arg" where
  "strip_arg (AVal v) = AVal (strip_val v)"
| "strip_arg (AErr e) = AErr e"

fun strip_event :: "event \<Rightarrow> event" where
  "strip_event (Call n args) = Call n (map strip_arg args)"
| "strip_event e = e"

fun strip_task :: "task \<Rightarrow> task" where
  "strip_task (Decode422 r settings) = Decode422 r (strip_val settings)"

definition alike :: "state \<Rightarrow> state \<Rightarrow> bool" where
  "alike st st' \<longleftrightarrow>
     dom st = dom st' \<and> map strip_task (pending st) = map strip_task (pending st')"

definition sim :: "'a js \<Rightarrow> 'a js \<Rightarrow> bool" where
  "sim m m' \<longleftrightarrow>
     (\<forall>st st'. alike st st' \<longrightarrow>
        result_of (m st) = result_of (m' st')
        \<and> alike (state_of (m st)) (state_of (m' st'))
        \<and> map strip_event (events_of (m st)) = map strip_event (events_of (m' st')))"

section \<open>Properties of the settings merge\<close>

lemma map_of_fold_update:
  "distinct (map fst xs) \<Longrightarrow>
   map_of (fold (\<lambda>(k, v). AList.update k v) xs t) k =
     (case map_of xs k of Some v \<Rightarrow> Some v | None \<Rightarrow> map_of t k)"
proof (induction xs arbitrary: t)
  case Nil
  show ?case by simp
next
  case (Cons p xs)
  obtain a b where p: "p = (a, b)" by (cases p)
  from Cons.prems p have fresh: "a \<notin> fst ` set xs" and d: "distinct (map fst xs)"
    by auto
  from fresh have none: "map_of xs a = None"
    by (simp add: map_of_eq_None_iff)
  show ?case
    using Cons.IH [OF d, of "AList.update a b t"] none
    by (simp add: p update_conv' split: option.splits)
qed

lemma distinct_defaults: "distinct (map fst (defaults body))"
  by (simp add: defaults_def)

lemma Object_assign_empty_defaults:
  "map_of (Object_assign [] (JObj (defaults body))) k = map_of (defaults body) k"
  using map_of_fold_update [OF distinct_defaults, of body "[]" k]
  by (simp add: Object_assign_def split: option.splits)

lemma get_prop_merge_settings:
  assumes "distinct (map fst (own_props options))"
  shows "get_prop (merge_settings body options) k =
           (case map_of (own_props options) k of
              Some v \<Rightarrow> v
            | None \<Rightarrow> get_prop (JObj (defaults body)) k)"
  using map_of_fold_update [OF assms, of "Object_assign [] (JObj (defaults body))" k]
  by (simp add: get_prop_def merge_settings_def Object_assign_empty_defaults
        Object_assign_def [of _ options] split: option.splits)


section \<open>Lemmas\<close>

subsection \<open>Sequencing\<close>

lemmas out_defs = result_of_def state_of_def events_of_def page_of_def

lemma and_then_eq:
  "and_then m f st =
     (case result_of (m st) of
        Inl e \<Rightarrow> (Inl e, state_of (m st), events_of (m st))
      | Inr a \<Rightarrow> (result_of (f a (state_of (m st))), state_of (f a (state_of (m st))),
                  events_of (m st) @ events_of (f a (state_of (m st)))))"
  by (simp add: and_then_def out_defs split: prod.splits sum.splits)

lemma try_catch_eq:
  "try_catch m h st =
     (case result_of (m st) of
        Inl e \<Rightarrow> (result_of (h e (state_of (m st))), state_of (h e (state_of (m st))),
                  events_of (m st) @ events_of (h e (state_of (m st))))
      | Inr a \<Rightarrow> (Inr a, state_of (m st), events_of (m st)))"
  by (simp add: try_catch_def out_defs split: prod.splits sum.splits)

lemma try_finally_eq:
  "try_finally m fin st =
     (case result_of (fin (state_of (m st))) of
        Inl e \<Rightarrow> (Inl e, state_of (fin (state_of (m st))),
                  events_of (m st) @ events_of (fin (state_of (m st))))
      | Inr u \<Rightarrow> (result_of (m st), state_of (fin (state_of (m st))),
                  events_of (m st) @ events_of (fin (state_of (m st)))))"
  by (simp add: try_finally_def out_defs split: prod.splits sum.splits)

lemma out_simps [simp]:
  "result_of (r, s, es) = r" "state_of (r, s, es) = s" "events_of (r, s, es) = es"
  by (simp_all add: out_defs)

lemma only_ret: "only P (ret a)" by (simp add: only_def ret_def)
lemma only_raise: "only P (raise e)" by (simp add: only_def raise_def)
lemma only_ask: "only P (ask f)" by (simp add: only_def ask_def)
lemma only_schedule: "only P (schedule t)" by (simp add: only_def schedule_def)
lemma only_take_pending: "only P take_pending" by (simp add: only_def take_pending_def)
lemma only_emit: "P ev \<Longrightarrow> only P (emit ev)" by (simp add: only_def emit_def)
lemma only_dom_do: "P (Dom op) \<Longrightarrow> only P (dom_do op)" by (simp add: only_def dom_do_def)

lemma only_and_then: "only P m \<Longrightarrow> (\<And>a. only P (f a)) \<Longrightarrow> only P (and_then m f)"
  by (simp add: only_def and_then_eq split: sum.splits)

lemma only_seq: "only P m \<Longrightarrow> only P n \<Longrightarrow> only P (seq m n)"
  by (simp add: seq_def only_and_then)

lemma only_try_catch: "only P m \<Longrightarrow> (\<And>e. only P (h e)) \<Longrightarrow> only P (try_catch m h)"
  by (simp add: only_def try_catch_eq split: sum.splits)

lemma only_try_finally: "only P m \<Longrightarrow> only P fin \<Longrightarrow> only P (try_finally m fin)"
  by (simp add: only_def try_finally_eq split: sum.splits)

lemma only_settle: "only P m \<Longrightarrow> (\<And>e. P (Unhandled e)) \<Longrightarrow> only P (settle m)"
  by (simp add: settle_def only_try_catch only_emit)

lemma only_only_if: "only P m \<Longrightarrow> only P (only_if b m)"
  by (simp add: only_if_def only_ret)

lemma only_for_each: "(\<And>x. only P (f x)) \<Longrightarrow> only P (for_each xs f)"
  by (induction xs) (simp_all add: only_ret only_seq)

lemma only_if: "only P a \<Longrightarrow> only P b \<Longrightarrow> only P (if c then a else b)"
  by simp

lemmas only_intros = only_ret only_raise only_ask only_schedule only_take_pending only_emit
  only_dom_do only_and_then only_seq only_try_catch only_try_finally only_settle only_only_if
  only_for_each only_if

lemma only_as_element: "only P (as_element v m)"
  by (simp add: as_element_def only_ret only_raise split: jsval.splits)

lemma only_querySelectorAll: "only P (querySelectorAll el sel)"
  unfolding querySelectorAll_def by (intro only_intros only_as_element)

lemma only_querySelector: "only P (querySelector el sel)"
  unfolding querySelector_def by (intro only_intros only_as_element)

lemma only_querySelectorAll_css: "only P (querySelectorAll_css w el sel)"
  unfolding querySelectorAll_css_def
  by (intro only_intros only_as_element | simp add: only_intros split: option.splits)+

lemma only_querySelector_name: "only P (querySelector_name w el f)"
  unfolding querySelector_name_def
  by (intro only_intros only_as_element only_querySelector
      | simp add: only_intros split: option.splits)+

lemma only_parentNode: "only P (parentNode el)"
  unfolding parentNode_def by (intro only_intros only_as_element)

lemma only_closest: "only P (closest el sel)"
  unfolding closest_def by (intro only_intros only_as_element)

lemma only_read_prop: "only P (read_prop v k)"
  unfolding read_prop_def by (intro only_intros)

lemma only_Object_entries: "only P (Object_entries v)"
  unfolding Object_entries_def by (intro only_intros)

lemma only_response_json: "only P (response_json r)"
  by (simp add: response_json_def only_ret only_raise split: sum.splits)

lemma only_response_text: "only P (response_text r)"
  by (simp add: response_text_def only_ret only_raise split: sum.splits)

lemmas only_dom_api = only_as_element only_querySelectorAll only_querySelector
  only_querySelectorAll_css only_querySelector_name only_parentNode only_closest
  only_read_prop only_Object_entries only_response_json only_response_text


lemma only_toggleButtonLoading_on:
  assumes "\<And>s. P (ConsoleWarn s)" "\<And>b k v. P (Dom (SetAttribute b k v))"
    "\<And>b. P (Dom (SetDisabled b True))"
  shows "only P (toggleButtonLoading w sel True settings)"
  unfolding toggleButtonLoading_def
  by (intro only_intros only_dom_api assms
      | simp add: only_intros only_dom_api assms split: jsval.splits option.splits)+

lemma only_toggleButtonLoading_off:
  assumes "\<And>s. P (ConsoleWarn s)" "\<And>b k. P (Dom (RemoveAttribute b k))"
    "\<And>b. P (Dom (SetDisabled b False))"
  shows "only P (toggleButtonLoading w sel False settings)"
  unfolding toggleButtonLoading_def
  by (intro only_intros only_dom_api assms
      | simp add: only_intros only_dom_api assms split: jsval.splits option.splits)+

lemma only_defaultBeforeSend:
  assumes "\<And>s. P (ConsoleWarn s)" "\<And>b k v. P (Dom (SetAttribute b k v))"
    "\<And>b. P (Dom (SetDisabled b True))"
  shows "only P (defaultBeforeSend w settings)"
  unfolding defaultBeforeSend_def
  by (intro only_intros only_toggleButtonLoading_on assms)

lemma only_call:
  assumes "\<And>s. P (ConsoleWarn s)" "\<And>b k v. P (Dom (SetAttribute b k v))"
    "\<And>b. P (Dom (SetDisabled b True))" "\<And>n. P (Call n args)"
  shows "only P (call w f args)"
  unfolding call_def
  by (simp add: only_intros only_defaultBeforeSend assms
        split: jsval.splits option.splits list.splits arg.splits)

lemma only_validateResponse: "only P (validateResponse r)"
  unfolding validateResponse_def by (intro only_intros only_dom_api)

lemma only_processContentType: "only P (processContentType r)"
  unfolding processContentType_def
  by (simp add: only_intros only_dom_api split: option.splits)

lemma only_clearValidationErrors:
  assumes "\<And>i. P (Dom (Remove i))" "\<And>i c. P (Dom (RemoveClass i c))"
  shows "only P (clearValidationErrors c)"
  unfolding clearValidationErrors_def
  by (intro only_intros only_dom_api assms)

lemma only_handleSuccess:
  assumes "\<And>i. P (Dom (Remove i))" "\<And>i c. P (Dom (RemoveClass i c))"
    "\<And>v. P (Navigate v)" "\<And>i. P (FormReset i)" "\<And>v. P (ToastrSuccess v)"
  shows "only P (handleSuccess response settings)"
  unfolding handleSuccess_def
  by (intro only_intros only_dom_api assms)

lemma only_processResponse:
  assumes "\<And>i. P (Dom (Remove i))" "\<And>i c. P (Dom (RemoveClass i c))"
    "\<And>v. P (Navigate v)" "\<And>i. P (FormReset i)" "\<And>v. P (ToastrSuccess v)"
    "\<And>s. P (ConsoleWarn s)" "\<And>b k v. P (Dom (SetAttribute b k v))"
    "\<And>b. P (Dom (SetDisabled b True))" "\<And>n a. a \<noteq> [] \<Longrightarrow> P (Call n a)"
  shows "only P (processResponse w data settings)"
  unfolding processResponse_def
  by (intro only_intros only_handleSuccess only_call assms | simp)+

lemma only_createFormData: "only P (createFormData settings)"
  unfolding createFormData_def
  by (intro only_intros only_dom_api | simp add: only_intros split: jsval.splits)+

lemma only_requestOptions: "only P (requestOptions settings)"
  unfolding requestOptions_def
  by (intro only_intros only_dom_api
      | simp add: only_intros only_createFormData split: jsval.splits option.splits)+

lemma only_run_beforeSend:
  assumes "\<And>s. P (ConsoleWarn s)" "\<And>b k v. P (Dom (SetAttribute b k v))"
    "\<And>b. P (Dom (SetDisabled b True))" "\<And>n a. a \<noteq> [] \<Longrightarrow> P (Call n a)"
  shows "only P (run_beforeSend w settings)"
  unfolding run_beforeSend_def
  by (intro only_intros only_call only_defaultBeforeSend assms | simp)+

lemma only_completion:
  assumes "\<And>s. P (ConsoleWarn s)" "\<And>b k. P (Dom (RemoveAttribute b k))"
    "\<And>b. P (Dom (SetDisabled b False))" "\<And>b k v. P (Dom (SetAttribute b k v))"
    "\<And>b. P (Dom (SetDisabled b True))" "\<And>n. P (Call n [])" "P ClearTimeout"
  shows "only P (completion w settings)"
  unfolding completion_def
  by (intro only_intros only_call only_toggleButtonLoading_off assms)

lemma only_fetch:
  assumes "P (Fetch url options)"
  shows "only P (fetch w url options)"
  unfolding fetch_def
  by (intro only_intros assms | simp add: only_intros split: fetch_result.splits)+

lemma only_displayValidationError_v2:
  assumes "\<And>i. P (Dom (Remove i))" "\<And>i c. P (Dom (AddClass i c))"
    "\<And>p n. P (Dom (AppendChild p n))"
  shows "only P (displayValidationError_v2 i m)"
  unfolding displayValidationError_v2_def
  by (intro only_intros only_dom_api assms)

lemma only_displayValidationError_v1:
  assumes "\<And>i. P (Dom (Remove i))" "\<And>i c. P (Dom (AddClass i c))"
    "\<And>p n. P (Dom (AppendChild p n))"
  shows "only P (displayValidationError_v1 i m)"
  unfolding displayValidationError_v1_def
  by (intro only_intros only_dom_api assms)

lemma only_handleError_v2:
  assumes "\<And>v. P (ToastrError v)"
  shows "only P (handleError_v2 e settings)"
  unfolding handleError_v2_def
  by (simp add: only_intros assms split: option.splits)

lemma only_handleError_v1:
  assumes "\<And>v. P (ToastrError v)" "\<And>s. P (ConsoleError s)"
    "\<And>s. P (ConsoleWarn s)" "\<And>b k v. P (Dom (SetAttribute b k v))"
    "\<And>b. P (Dom (SetDisabled b True))" "\<And>n a. a \<noteq> [] \<Longrightarrow> P (Call n a)"
  shows "only P (handleError_v1 w e settings)"
  unfolding handleError_v1_def
  by (intro only_intros only_call assms | simp add: only_intros split: thrown.splits)+

lemma only_show_validation_v2:
  assumes "\<And>v. P (ToastrError v)" "\<And>i. P (Dom (Remove i))"
    "\<And>i c. P (Dom (AddClass i c))" "\<And>p n. P (Dom (AppendChild p n))"
  shows "only P (show_validation_v2 w errorJson settings)"
  unfolding show_validation_v2_def
  by (intro only_intros only_dom_api only_displayValidationError_v2 assms
      | simp add: split_def)+

lemma only_show_validation_v1:
  assumes "\<And>v. P (ToastrError v)" "\<And>s. P (ConsoleError s)" "\<And>i. P (Dom (Remove i))"
    "\<And>i c. P (Dom (AddClass i c))" "\<And>p n. P (Dom (AppendChild p n))"
  shows "only P (show_validation_v1 w errorJson settings)"
  unfolding show_validation_v1_def
  by (intro only_intros only_dom_api only_displayValidationError_v1 assms
      | simp add: split_def)+

lemma only_run_task:
  assumes "\<And>v. P (ToastrError v)" "\<And>s. P (ConsoleError s)" "\<And>i. P (Dom (Remove i))"
    "\<And>i c. P (Dom (AddClass i c))" "\<And>p n. P (Dom (AppendChild p n))"
    "\<And>e. P (Unhandled e)"
  shows "only P (run_task v w t)"
  by (cases v; cases t)
     (simp_all add: only_intros only_dom_api only_show_validation_v1
        only_show_validation_v2 assms)

subsection \<open>The document under mutation\<close>

lemma nodes_Node: "nodes (Node e ks) = Node e ks # concat (map nodes ks)"
  by (simp add: nodes_def [abs_def])

lemma set_nodes_Node:
  "set (nodes (Node e ks)) = insert (Node e ks) (\<Union>k \<in> set ks. set (nodes k))"
  by (simp add: nodes_Node)

lemma set_descendants_Node:
  "set (descendants (Node e ks)) = (\<Union>k \<in> set ks. set (nodes k))"
  by (simp add: nodes_def [abs_def])

lemma elem_remove_node [simp]: "elem (remove_node i n) = elem n"
  by (cases n) simp

lemma elem_update_elem: "elem (update_elem i f n) = (if nid n = i then f (elem n) else elem n)"
  by (cases n) simp

lemma matches_elem: "elem a = elem b \<Longrightarrow> matches sel a = matches sel b"
  by (cases sel) simp_all

lemma nodes_remove_node:
  "set (nodes (remove_node i n)) \<subseteq> remove_node i ` set (nodes n)"
proof (induction n)
  case (Node e ks)
  let ?ks' = "map (remove_node i) (filter (\<lambda>k. nid k \<noteq> i) ks)"
  have r: "remove_node i (Node e ks) = Node e ?ks'"
    by simp
  show ?case
    unfolding r set_nodes_Node
  proof (rule subsetI)
    fix x
    assume "x \<in> insert (Node e ?ks') (\<Union>k \<in> set ?ks'. set (nodes k))"
    then consider "x = Node e ?ks'"
      | k where "k \<in> set ks" "x \<in> set (nodes (remove_node i k))"
      by auto
    then show "x \<in> remove_node i ` insert (Node e ks) (\<Union>k \<in> set ks. set (nodes k))"
    proof cases
      case 1
      then have "x = remove_node i (Node e ks)"
        by simp
      then show ?thesis
        by blast
    next
      case 2
      with Node.IH obtain y where "y \<in> set (nodes k)" "x = remove_node i y"
        by blast
      with 2(1) show ?thesis
        by blast
    qed
  qed
qed

lemma descendants_remove_node:
  "set (descendants (remove_node i n)) \<subseteq> remove_node i ` set (descendants n)"
proof (cases n)
  case (Node e ks)
  let ?ks' = "map (remove_node i) (filter (\<lambda>k. nid k \<noteq> i) ks)"
  have r: "remove_node i (Node e ks) = Node e ?ks'"
    by simp
  show ?thesis
    unfolding Node r set_descendants_Node
  proof (rule subsetI)
    fix x
    assume "x \<in> (\<Union>k \<in> set ?ks'. set (nodes k))"
    then obtain k where k: "k \<in> set ks" "x \<in> set (nodes (remove_node i k))"
      by auto
    with nodes_remove_node obtain y where "y \<in> set (nodes k)" "x = remove_node i y"
      by blast
    with k(1) show "x \<in> remove_node i ` (\<Union>k \<in> set ks. set (nodes k))"
      by blast
  qed
qed

lemma nodes_update_elem:
  "nodes (update_elem i f n) = map (update_elem i f) (nodes n)"
proof (induction n)
  case (Node e ks)
  have h: "map (\<lambda>k. nodes (update_elem i f k)) ks = map (\<lambda>k. map (update_elem i f) (nodes k)) ks"
    by (rule map_cong [OF refl]) (rule Node.IH)
  show ?case
    by (simp add: nodes_Node map_concat comp_def h)
qed

lemma descendants_update_elem:
  "descendants (update_elem i f n) = map (update_elem i f) (descendants n)"
  using nodes_update_elem [of i f n] by (simp add: nodes_def)

text \<open>No element with identifier c has a descendant matching sel.\<close>

lemma select_all_empty_iff:
  "select_all sel c root = [] \<longleftrightarrow>
     (\<forall>n \<in> set (nodes root). nid n = c \<longrightarrow> (\<forall>d \<in> set (descendants n). \<not> matches sel d))"
  by (auto simp: select_all_def filter_empty_conv)

lemma select_all_remove_node:
  assumes "select_all sel c root = []"
  shows "select_all sel c (remove_node i root) = []"
  unfolding select_all_empty_iff
proof (intro ballI impI)
  fix n' d'
  assume n': "n' \<in> set (nodes (remove_node i root))" and c: "nid n' = c"
    and d': "d' \<in> set (descendants n')"
  from n' nodes_remove_node obtain n where n: "n \<in> set (nodes root)" "n' = remove_node i n"
    by blast
  from d' n descendants_remove_node obtain d where d: "d \<in> set (descendants n)" "d' = remove_node i d"
    by blast
  from assms n c d have "\<not> matches sel d"
    by (auto simp: select_all_empty_iff)
  then show "\<not> matches sel d'"
    using d matches_elem [of d' d sel] by simp
qed

lemma select_all_update_elem:
  assumes "select_all sel c root = []"
    and "\<And>e. eid (f e) = eid e"
    and "\<And>e ks. matches sel (Node (f e) ks) = matches sel (Node e ks)"
  shows "select_all sel c (update_elem i f root) = []"
proof -
  have m: "matches sel (update_elem i f d) = matches sel d" for d
    using assms(3) by (cases d) (simp, metis matches_elem node.sel(1))
  have k: "nid (update_elem i f n) = nid n" for n
    using assms(2) by (simp add: elem_update_elem)
  show ?thesis
    using assms(1)
    by (auto simp: select_all_empty_iff nodes_update_elem descendants_update_elem m k)
qed

lemma document_select_None_iff:
  "document_select sel root = None \<longleftrightarrow> (\<forall>n \<in> set (nodes root). \<not> matches sel n)"
  by (auto simp: document_select_def find_None_iff)

lemma document_select_remove_node:
  assumes "document_select sel root = None"
  shows "document_select sel (remove_node i root) = None"
  unfolding document_select_None_iff
proof
  fix n' assume "n' \<in> set (nodes (remove_node i root))"
  with nodes_remove_node obtain n where n: "n \<in> set (nodes root)" "n' = remove_node i n"
    by blast
  with assms have "\<not> matches sel n" by (simp add: document_select_None_iff)
  then show "\<not> matches sel n'"
    using n matches_elem [of n' n sel] by simp
qed

lemma document_select_update_elem:
  assumes "document_select sel root = None"
    and "\<And>e ks. matches sel (Node (f e) ks) = matches sel (Node e ks)"
  shows "document_select sel (update_elem i f root) = None"
proof -
  have m: "matches sel (update_elem i f d) = matches sel d" for d
    using assms(2) by (cases d) (simp, metis matches_elem node.sel(1))
  show ?thesis
    using assms(1) by (auto simp: document_select_None_iff nodes_update_elem m)
qed

subsection \<open>The completion step\<close>















subsection \<open>The promise chain\<close>

lemma and_then_ask: "and_then (ask f) g st = g (f (dom st)) st"
  by (simp add: and_then_eq ask_def)
     (metis prod.collapse result_of_def state_of_def events_of_def)


lemma and_then_Inr:
  assumes "result_of (and_then m f st) = Inr b"
  obtains a where "result_of (m st) = Inr a"
    and "result_of (f a (state_of (m st))) = Inr b"
    and "events_of (and_then m f st) = events_of (m st) @ events_of (f a (state_of (m st)))"
  using assms by (auto simp: and_then_eq split: sum.splits)

text \<open>The chain: the Fetch, then what the handlers do, then the completion.\<close>

lemma fetch_eq:
  "fetch w url req st =
     (case network w of Rejects e \<Rightarrow> Inl e | Resolves r \<Rightarrow> Inr r, st, [Fetch url req])"
  by (simp add: fetch_def seq_def and_then_eq emit_def ret_def raise_def
        split: fetch_result.splits)




lemma easyAjax_unfold:
  "easyAjax v w options page =
     (let S = resolve_settings (document_body page) options in
      seq (clearValidationErrors (get_prop S ''container''))
     (and_then (requestOptions S) (\<lambda>req.
      seq (run_beforeSend w S)
     (seq (emit (SetTimeout (get_prop S ''timeout'')))
     (seq (settle (promise_chain v w S req))
          (and_then take_pending (\<lambda>tasks. for_each tasks (run_task v w))))))))
     \<lparr>dom = page, pending = []\<rparr>"
  by (simp add: easyAjax_def and_then_ask Let_def)




subsection \<open>Properties of the page that are kept\<close>

lemma preserves_ret: "preserves Q (ret a)" by (simp add: preserves_def ret_def)
lemma preserves_raise: "preserves Q (raise e)" by (simp add: preserves_def raise_def)
lemma preserves_emit: "preserves Q (emit e)" by (simp add: preserves_def emit_def)
lemma preserves_ask: "preserves Q (ask f)" by (simp add: preserves_def ask_def)
lemma preserves_schedule: "preserves Q (schedule t)" by (simp add: preserves_def schedule_def)

lemma preserves_dom_do: "(\<And>root. Q root \<Longrightarrow> Q (apply_op op root)) \<Longrightarrow> preserves Q (dom_do op)"
  by (simp add: preserves_def dom_do_def)

lemma preserves_and_then:
  "preserves Q m \<Longrightarrow> (\<And>a. preserves Q (f a)) \<Longrightarrow> preserves Q (and_then m f)"
  by (simp add: preserves_def and_then_eq split: sum.splits)

lemma preserves_seq: "preserves Q m \<Longrightarrow> preserves Q n \<Longrightarrow> preserves Q (seq m n)"
  by (simp add: seq_def preserves_and_then)

lemma preserves_only_if: "preserves Q m \<Longrightarrow> preserves Q (only_if b m)"
  by (simp add: only_if_def preserves_ret)

lemma preserves_for_each: "(\<And>x. preserves Q (f x)) \<Longrightarrow> preserves Q (for_each xs f)"
  by (induction xs) (simp_all add: preserves_ret preserves_seq)

lemmas preserves_intros = preserves_ret preserves_raise preserves_emit preserves_ask
  preserves_schedule preserves_and_then preserves_seq preserves_only_if preserves_for_each

lemma preserves_as_element: "preserves Q (as_element v m)"
  by (cases v) (simp_all add: as_element_def preserves_intros)

lemma preserves_querySelectorAll: "preserves Q (querySelectorAll el sel)"
  unfolding querySelectorAll_def by (intro preserves_intros preserves_as_element)

lemma preserves_querySelector: "preserves Q (querySelector el sel)"
  unfolding querySelector_def by (intro preserves_intros preserves_as_element)

text \<open>Removing elements and removing a class keeps "nothing matches".\<close>

lemma apply_Remove_select_all:
  "select_all sel c root = [] \<Longrightarrow> select_all sel c (apply_op (Remove i) root) = []"
  by (simp add: select_all_remove_node)

lemma apply_RemoveClass_select_all:
  assumes "select_all sel c root = []" "\<And>x. sel \<noteq> ByClass x"
  shows "select_all sel c (apply_op (RemoveClass i k) root) = []"
  unfolding apply_op.simps
  using assms(2) by (intro select_all_update_elem assms(1)) (cases sel; simp)+

lemma apply_Remove_document_select:
  "document_select sel root = None \<Longrightarrow> document_select sel (apply_op (Remove i) root) = None"
  by (simp add: document_select_remove_node)

lemma apply_RemoveClass_document_select:
  assumes "document_select sel root = None" "\<And>x. sel \<noteq> ByClass x"
  shows "document_select sel (apply_op (RemoveClass i k) root) = None"
  unfolding apply_op.simps
  using assms(2) by (intro document_select_update_elem assms(1)) (cases sel; simp)+

lemma preserves_clearValidationErrors:
  assumes "\<And>i root. Q root \<Longrightarrow> Q (apply_op (Remove i) root)"
    and "\<And>i k root. Q root \<Longrightarrow> Q (apply_op (RemoveClass i k) root)"
  shows "preserves Q (clearValidationErrors c)"
  unfolding clearValidationErrors_def
  by (intro preserves_intros preserves_querySelectorAll preserves_dom_do assms)

subsection \<open>The request that is issued\<close>

lemma onlyD: "only P m \<Longrightarrow> e \<in> set (events_of (m st)) \<Longrightarrow> P e"
  by (auto simp: only_def list_all_iff)

lemma events_and_then_mem:
  assumes "e \<in> set (events_of (and_then m f st))"
  shows "e \<in> set (events_of (m st))
       \<or> (\<exists>a. result_of (m st) = Inr a \<and> e \<in> set (events_of (f a (state_of (m st)))))"
  using assms by (auto simp: and_then_eq split: sum.splits)

lemma events_seq_mem:
  assumes "e \<in> set (events_of (seq m n st))"
  shows "e \<in> set (events_of (m st))
       \<or> (result_of (m st) = Inr () \<and> e \<in> set (events_of (n (state_of (m st)))))"
  using assms by (auto simp: seq_def and_then_eq split: sum.splits)

lemma only_promise_chain:
  assumes "\<And>i. P (Dom (Remove i))" "\<And>i c. P (Dom (RemoveClass i c))"
    "\<And>v. P (Navigate v)" "\<And>i. P (FormReset i)" "\<And>v. P (ToastrSuccess v)"
    "\<And>s. P (ConsoleWarn s)" "\<And>b k v. P (Dom (SetAttribute b k v))"
    "\<And>b. P (Dom (SetDisabled b True))" "\<And>n a. a \<noteq> [] \<Longrightarrow> P (Call n a)"
    "\<And>v. P (ToastrError v)" "\<And>s. P (ConsoleError s)"
    "\<And>b k. P (Dom (RemoveAttribute b k))" "\<And>b. P (Dom (SetDisabled b False))"
    "\<And>n. P (Call n [])" "P ClearTimeout" "P (Fetch (get_prop S ''url'') req)"
  shows "only P (promise_chain v w S req)"
proof (cases v)
  case V1
  show ?thesis
    unfolding V1 promise_chain.simps promise_chain_v1_def
    by (intro only_intros only_fetch only_validateResponse only_processContentType
          only_processResponse only_handleError_v1 only_completion assms)
next
  case V2
  show ?thesis
    unfolding V2 promise_chain.simps promise_chain_v2_def
    by (intro only_intros only_fetch only_validateResponse only_processContentType
          only_processResponse only_handleError_v2 only_completion assms)
qed

text \<open>Every event of a run but the Swal dialog is possible; the Fetch is the one built.\<close>

lemma only_after_request:
  assumes "\<And>i. P (Dom (Remove i))" "\<And>i c. P (Dom (RemoveClass i c))"
    "\<And>v. P (Navigate v)" "\<And>i. P (FormReset i)" "\<And>v. P (ToastrSuccess v)"
    "\<And>s. P (ConsoleWarn s)" "\<And>b k v. P (Dom (SetAttribute b k v))"
    "\<And>b. P (Dom (SetDisabled b True))" "\<And>n a. a \<noteq> [] \<Longrightarrow> P (Call n a)"
    "\<And>v. P (ToastrError v)" "\<And>s. P (ConsoleError s)"
    "\<And>b k. P (Dom (RemoveAttribute b k))" "\<And>b. P (Dom (SetDisabled b False))"
    "\<And>n. P (Call n [])" "P ClearTimeout" "P (Fetch (get_prop S ''url'') req)"
    "\<And>i c. P (Dom (AddClass i c))" "\<And>p n. P (Dom (AppendChild p n))"
    "\<And>v. P (SetTimeout v)" "\<And>e. P (Unhandled e)"
  shows "only P (seq (run_beforeSend w S)
     (seq (emit (SetTimeout (get_prop S ''timeout'')))
     (seq (settle (promise_chain v w S req))
          (and_then take_pending (\<lambda>tasks. for_each tasks (run_task v w))))))"
  by (intro only_intros only_run_beforeSend only_promise_chain only_run_task assms)

lemma fetch_built:
  assumes S: "S = resolve_settings (document_body page) options"
    and "Fetch url req \<in> set (events_of (easyAjax v w options page))"
  shows "url = get_prop S ''url''"
    and "result_of (requestOptions S
           (state_of (clearValidationErrors (get_prop S ''container'')
              \<lparr>dom = page, pending = []\<rparr>))) = Inr req"
proof -
  define st0 where "st0 = \<lparr>dom = page, pending = []\<rparr>"
  let ?A = "clearValidationErrors (get_prop S ''container'')"
  let ?F = "\<lambda>req. seq (run_beforeSend w S)
     (seq (emit (SetTimeout (get_prop S ''timeout'')))
     (seq (settle (promise_chain v w S req))
          (and_then take_pending (\<lambda>tasks. for_each tasks (run_task v w)))))"
  have unf: "easyAjax v w options page = seq ?A (and_then (requestOptions S) ?F) st0"
    by (simp add: easyAjax_unfold S st0_def Let_def)
  have nA: "Fetch url req \<notin> set (events_of (?A st))" for st
    using onlyD [OF only_clearValidationErrors [of not_fetch "get_prop S ''container''"],
        of "Fetch url req" st]
    by auto
  have nB: "Fetch url req \<notin> set (events_of (requestOptions S st))" for st
    using onlyD [OF only_requestOptions [of not_fetch S], of "Fetch url req" st]
    by auto
  from assms(2) have "Fetch url req \<in> set (events_of (seq ?A (and_then (requestOptions S) ?F) st0))"
    by (simp add: unf)
  with nA events_seq_mem
  have "Fetch url req \<in> set (events_of (and_then (requestOptions S) ?F (state_of (?A st0))))"
    by blast
  with nB events_and_then_mem obtain r where r: "result_of (requestOptions S (state_of (?A st0))) = Inr r"
    and m: "Fetch url req \<in> set (events_of (?F r (state_of (requestOptions S (state_of (?A st0))))))"
    by blast
  have "only (fetch_is (get_prop S ''url'') r) (?F r)"
    by (rule only_after_request) simp_all
  from onlyD [OF this m] have "fetch_is (get_prop S ''url'') r (Fetch url req)" .
  then have "r = req" "url = get_prop S ''url''" by simp_all
  with r show "url = get_prop S ''url''"
    and "result_of (requestOptions S
           (state_of (clearValidationErrors (get_prop S ''container'')
              \<lparr>dom = page, pending = []\<rparr>))) = Inr req"
    by (simp_all add: st0_def)
qed

lemma fetch_origin:
  assumes "Fetch url req \<in> set (events_of (easyAjax v w options page))"
  shows "\<exists>st. result_of (requestOptions (resolve_settings (document_body page) options) st)
           = Inr req"
  using fetch_built(2) [OF refl assms] by blast



lemma requestOptions_no_meta:
  "document_select (ByTagAttr ''meta'' ''name'' ''csrf-token'') (dom st) = None \<Longrightarrow>
   requestOptions S st = (Inl (TypeError ''getAttribute''), st, [])"
  by (simp add: requestOptions_def and_then_ask raise_def)

lemma requestOptions_no_type:
  "\<not> is_string (get_prop S ''type'') \<Longrightarrow> \<exists>e. requestOptions S st = (Inl e, st, [])"
  by (cases "document_select (ByTagAttr ''meta'' ''name'' ''csrf-token'') (dom st)";
      cases "get_prop S ''type''")
     (simp_all add: requestOptions_def and_then_ask raise_def)

lemma requestOptions_meta:
  assumes "document_select (ByTagAttr ''meta'' ''name'' ''csrf-token'') (dom st) = Some m"
    and "get_prop S ''type'' = JStr t"
  shows "requestOptions S st =
     (if toUpperCase t \<noteq> ''GET'' \<and> toUpperCase t \<noteq> ''HEAD'' then
        if truthy (get_prop S ''file'') then
          and_then (createFormData S) (\<lambda>formData.
            ret ((request_base S m)\<lparr>req_body := formData\<rparr>)) st
        else (case get_prop S ''data'' of
                JStr data \<Rightarrow>
                  ret ((request_base S m)
                    \<lparr>req_headers := req_headers (request_base S m) @
                       [(''Content-Type'', JStr ''application/x-www-form-urlencoded'')],
                     req_body := BodyString data\<rparr>) st
              | data \<Rightarrow>
                  ret ((request_base S m)
                    \<lparr>req_headers := req_headers (request_base S m) @
                       [(''Content-Type'', JStr ''application/json'')],
                     req_body := BodyJson data\<rparr>) st)
      else ret (request_base S m) st)"
  using assms
  by (simp add: requestOptions_def and_then_ask split: jsval.splits)


lemma requestOptions_csrf:
  assumes "result_of (requestOptions S st) = Inr req"
    and "truthy (get_prop S ''headers'')"
    and "truthy (get_prop (get_prop S ''headers'') ''X-CSRF-TOKEN'')"
  shows "map_of (req_headers req) ''X-CSRF-TOKEN''
           = Some (get_prop (get_prop S ''headers'') ''X-CSRF-TOKEN'')"
proof -
  from assms(1) obtain m
    where m: "document_select (ByTagAttr ''meta'' ''name'' ''csrf-token'') (dom st) = Some m"
    by (cases "document_select (ByTagAttr ''meta'' ''name'' ''csrf-token'') (dom st)")
       (auto simp: requestOptions_no_meta)
  from assms(1) obtain t where t: "get_prop S ''type'' = JStr t"
    using requestOptions_no_type [of S st]
    by (cases "get_prop S ''type''") auto
  note eq = requestOptions_meta [OF m t]
  show ?thesis
  proof (cases "toUpperCase t \<noteq> ''GET'' \<and> toUpperCase t \<noteq> ''HEAD'' \<and> truthy (get_prop S ''file'')")
    case True
    with assms(1) have "result_of (and_then (createFormData S) (\<lambda>formData.
            ret ((request_base S m)\<lparr>req_body := formData\<rparr>)) st) = Inr req"
      by (simp add: eq)
    then obtain b where "req = (request_base S m)\<lparr>req_body := b\<rparr>"
      by (rule and_then_Inr) (auto simp: ret_def)
    with assms(2,3) show ?thesis
      by (simp add: request_base_def)
  next
    case False
    with assms show ?thesis
      by (auto simp: eq ret_def request_base_def split: jsval.splits if_splits)
  qed
qed

subsection \<open>Throwing before the request\<close>

lemma out_eq: "out = (result_of out, state_of out, events_of out)"
  by (simp add: out_defs)

lemma seq_Inl:
  "result_of (m st) = Inl e \<Longrightarrow> seq m n st = (Inl e, state_of (m st), events_of (m st))"
  by (simp add: seq_def and_then_eq)

lemma seq_Inr_eq:
  "result_of (m st) = Inr u \<Longrightarrow>
   seq m n st = (result_of (n (state_of (m st))), state_of (n (state_of (m st))),
                 events_of (m st) @ events_of (n (state_of (m st))))"
  by (simp add: seq_def and_then_eq)

lemma and_then_Inl:
  "result_of (m st) = Inl e \<Longrightarrow> and_then m f st = (Inl e, state_of (m st), events_of (m st))"
  by (simp add: and_then_eq)

lemma and_then_Inr_eq:
  "result_of (m st) = Inr a \<Longrightarrow>
   and_then m f st = (result_of (f a (state_of (m st))), state_of (f a (state_of (m st))),
                 events_of (m st) @ events_of (f a (state_of (m st))))"
  by (simp add: and_then_eq)

text \<open>easyAjax throws, and issues no request, when building the request throws.\<close>

lemma easyAjax_raises:
  assumes "\<And>u. result_of (clearValidationErrors
                (get_prop (resolve_settings (document_body page) options) ''container'')
                \<lparr>dom = page, pending = []\<rparr>) = Inr u \<Longrightarrow>
           \<exists>e. result_of (requestOptions (resolve_settings (document_body page) options)
                  (state_of (clearValidationErrors
                     (get_prop (resolve_settings (document_body page) options) ''container'')
                     \<lparr>dom = page, pending = []\<rparr>))) = Inl e"
  shows "(\<exists>e. result_of (easyAjax v w options page) = Inl e)
       \<and> (\<forall>url req. Fetch url req \<notin> set (events_of (easyAjax v w options page)))"
proof -
  define S where "S = resolve_settings (document_body page) options"
  define st0 where "st0 = \<lparr>dom = page, pending = []\<rparr>"
  let ?A = "clearValidationErrors (get_prop S ''container'')"
  let ?F = "\<lambda>req. seq (run_beforeSend w S)
     (seq (emit (SetTimeout (get_prop S ''timeout'')))
     (seq (settle (promise_chain v w S req))
          (and_then take_pending (\<lambda>tasks. for_each tasks (run_task v w)))))"
  have unf: "easyAjax v w options page = seq ?A (and_then (requestOptions S) ?F) st0"
    by (simp add: easyAjax_unfold S_def st0_def Let_def)
  have nA: "Fetch url req \<notin> set (events_of (?A st))" for st url req
    using onlyD [OF only_clearValidationErrors [of not_fetch "get_prop S ''container''"],
        of "Fetch url req" st]
    by auto
  have nB: "Fetch url req \<notin> set (events_of (requestOptions S st))" for st url req
    using onlyD [OF only_requestOptions [of not_fetch S], of "Fetch url req" st]
    by auto
  show ?thesis
  proof (cases "result_of (?A st0)")
    case (Inl e)
    then have "easyAjax v w options page = (Inl e, state_of (?A st0), events_of (?A st0))"
      unfolding unf by (rule seq_Inl)
    with nA show ?thesis by simp
  next
    case (Inr u)
    define st1 where "st1 = state_of (?A st0)"
    from Inr assms obtain e where e: "result_of (requestOptions S st1) = Inl e"
      unfolding S_def st0_def st1_def by blast
    have 1: "and_then (requestOptions S) ?F st1 =
               (Inl e, state_of (requestOptions S st1), events_of (requestOptions S st1))"
      using e by (rule and_then_Inl)
    have "easyAjax v w options page =
            (Inl e, state_of (requestOptions S st1),
             events_of (?A st0) @ events_of (requestOptions S st1))"
      unfolding unf using e Inr
      by (simp add: seq_Inr_eq [of ?A st0 u] st1_def [symmetric] 1)
    with nA nB show ?thesis by simp
  qed
qed

lemma clearValidationErrors_element:
  "result_of (clearValidationErrors c st) = Inr u \<Longrightarrow> is_element c"
  by (cases c)
     (simp_all add: clearValidationErrors_def querySelectorAll_def as_element_def
        and_then_eq raise_def)


subsection \<open>A container without a form\<close>

lemma querySelector_eq:
  "querySelector el sel st =
     (case el of
        JElem i \<Rightarrow> (Inr (first_or_null (select_all sel i (dom st))), st, [])
      | _ \<Rightarrow> (Inl (TypeError ''querySelector''), st, []))"
  by (cases el)
     (simp_all add: querySelector_def as_element_def and_then_eq ret_def raise_def ask_def)

lemma createFormData_no_form:
  assumes "\<And>c. get_prop S ''container'' = JElem c \<Longrightarrow> select_all (ByTag ''form'') c (dom st) = []"
  shows "\<exists>e. result_of (createFormData S st) = Inl e"
  using assms
  by (cases "get_prop S ''container''")
     (simp_all add: createFormData_def and_then_eq querySelector_eq first_or_null_def raise_def)

lemma requestOptions_no_form:
  assumes "truthy (get_prop S ''file'')" "get_prop S ''type'' = JStr t"
    "toUpperCase t \<noteq> ''GET''" "toUpperCase t \<noteq> ''HEAD''"
    "\<And>c. get_prop S ''container'' = JElem c \<Longrightarrow> select_all (ByTag ''form'') c (dom st) = []"
  shows "\<exists>e. result_of (requestOptions S st) = Inl e"
proof (cases "document_select (ByTagAttr ''meta'' ''name'' ''csrf-token'') (dom st)")
  case None
  then show ?thesis by (simp add: requestOptions_no_meta)
next
  case (Some m)
  from createFormData_no_form [of S st, OF assms(5)]
  obtain e where "result_of (createFormData S st) = Inl e"
    by blast
  then show ?thesis
    using assms(1-4) by (simp add: requestOptions_meta [OF Some assms(2)] and_then_Inl)
qed

lemma preserves_no_form:
  "preserves (\<lambda>root. select_all (ByTag t) c root = []) (clearValidationErrors el)"
  by (intro preserves_clearValidationErrors apply_Remove_select_all
        apply_RemoveClass_select_all) simp_all

lemma handleSuccess_no_form:
  assumes fr: "truthy (get_prop S ''formReset'')"
    and nf: "\<And>c. get_prop S ''container'' = JElem c \<Longrightarrow>
               select_all (ByTag ''form'') c (dom st) = []"
  shows "(\<exists>e. result_of (handleSuccess response S st) = Inl e)
       \<and> (\<forall>m. ToastrSuccess m \<notin> set (events_of (handleSuccess response S st)))"
proof -
  let ?X = "only_if (truthy (get_prop S ''container''))
              (clearValidationErrors (get_prop S ''container''))"
  let ?Y = "only_if (truthy (get_prop S ''redirect'') \<and> truthy (get_prop response ''url''))
              (emit (Navigate (get_prop response ''url'')))"
  let ?Z = "only_if (truthy (get_prop S ''formReset''))
              (and_then (querySelector (get_prop S ''container'') (ByTag ''form''))
                 (\<lambda>form. and_then (as_element form ''reset'') (\<lambda>f. emit (FormReset f))))"
  let ?W = "only_if (truthy (get_prop S ''showToastrMsg'') \<and> truthy (get_prop response ''message''))
              (emit (ToastrSuccess (get_prop response ''message'')))"
  have unf: "handleSuccess response S = seq ?X (seq ?Y (seq ?Z ?W))"
    by (simp add: handleSuccess_def clearValidationErrors_def)
  have oX: "only not_success_toast ?X"
    by (intro only_intros only_clearValidationErrors) simp_all
  have oY: "only not_success_toast ?Y"
    by (intro only_intros) simp_all
  have oZ: "only not_success_toast ?Z"
    by (intro only_intros only_dom_api) simp_all
  have nX: "ToastrSuccess m \<notin> set (events_of (?X s))" for m s
    using onlyD [OF oX, of "ToastrSuccess m" s] by auto
  have nY: "ToastrSuccess m \<notin> set (events_of (?Y s))" for m s
    using onlyD [OF oY, of "ToastrSuccess m" s] by auto
  have nZ: "ToastrSuccess m \<notin> set (events_of (?Z s))" for m s
    using onlyD [OF oZ, of "ToastrSuccess m" s] by auto
  have Z: "\<exists>e. result_of (?Z s) = Inl e"
    if "\<And>c. get_prop S ''container'' = JElem c \<Longrightarrow> select_all (ByTag ''form'') c (dom s) = []"
    for s
    using that fr
    by (cases "get_prop S ''container''")
       (simp_all add: only_if_def and_then_eq querySelector_eq first_or_null_def
          as_element_def raise_def)
  show ?thesis
  proof (cases "result_of (?X st)")
    case (Inl e)
    from seq_Inl [of ?X st e "seq ?Y (seq ?Z ?W)"] Inl
    have "handleSuccess response S st = (Inl e, state_of (?X st), events_of (?X st))"
      by (simp add: unf)
    with nX show ?thesis by simp
  next
    case (Inr u)
    define s1 where "s1 = state_of (?X st)"
    have "preserves (\<lambda>root. select_all (ByTag ''form'') c root = []) ?X" for c
      by (intro preserves_intros preserves_no_form)
    with nf have q1: "select_all (ByTag ''form'') c (dom s1) = []"
      if "get_prop S ''container'' = JElem c" for c
      using that by (simp add: preserves_def s1_def)
    have Y: "result_of (?Y s1) = Inr ()" "state_of (?Y s1) = s1"
      by (simp_all add: only_if_def emit_def ret_def)
    from Z [of s1] q1 obtain e where e: "result_of (?Z s1) = Inl e"
      by blast
    have "seq ?Z ?W s1 = (Inl e, state_of (?Z s1), events_of (?Z s1))"
      using seq_Inl [of ?Z s1 e ?W] e by simp
    then have "seq ?Y (seq ?Z ?W) s1 = (Inl e, state_of (?Z s1), events_of (?Y s1) @ events_of (?Z s1))"
      using Y by (simp add: seq_Inr_eq [of ?Y s1 "()"])
    then have "handleSuccess response S st =
                 (Inl e, state_of (?Z s1), events_of (?X st) @ events_of (?Y s1) @ events_of (?Z s1))"
      using Inr by (simp add: unf seq_Inr_eq [of ?X st u] s1_def [symmetric])
    with nX nY nZ show ?thesis by simp
  qed
qed


subsection \<open>Calls of the caller's functions\<close>

lemma call_fun:
  "call w (JFun n) args st =
     (case throws w n of None \<Rightarrow> Inr () | Some e \<Rightarrow> Inl e, st, [Call n args])"
  by (simp add: call_def seq_def and_then_eq emit_def ret_def raise_def split: option.splits)

lemma seq_ret: "seq (ret ()) m st = m st"
  using out_eq [of "m st"] by (simp add: seq_def and_then_eq ret_def)


subsection \<open>What the chain does with a response\<close>

text \<open>
  Version 1.2.8 on a response whose status is outside 200 to 299, 422 included: the
  error that reaches \<^verbatim>\<open>handleError\<close> is the Error of \<^verbatim>\<open>validateResponse\<close> or the
  decoding error, neither of which has a \<^verbatim>\<open>status\<close>, so the fallback branch is taken:
  the generic notification, then the caller's error callback. No decoding of validation
  messages is started.
\<close>

lemma promise_chain_v1_not_ok:
  assumes "network w = Resolves r" "\<not> ok r"
  shows "promise_chain_v1 w S req st =
        try_finally
          (seq (emit (Fetch (get_prop S ''url'') req))
               (handleError_v1 w
                  (case json_body r of
                     Inr json \<Rightarrow> NetworkError (status r) json
                   | Inl e \<Rightarrow> Platform e) S))
          (completion w S) st"
  using assms
  by (simp add: promise_chain_v1_def try_finally_eq try_catch_eq and_then_eq fetch_eq
        validateResponse_def response_json_def raise_def ret_def seq_def emit_def
        split: sum.splits)

lemma handleError_v1_fallback:
  assumes "error_status e \<noteq> JNum 422"
  shows "handleError_v1 w e S =
       seq (emit (ConsoleError ''Error in fetch operation:''))
      (seq (emit (ToastrError (JStr ''An error occurred. Please try again.'')))
           (if truthy (get_prop S ''customErrorHandler'')
            then call w (get_prop S ''customErrorHandler'') [AErr e, AVal S]
            else only_if (truthy (get_prop S ''error''))
                   (call w (get_prop S ''error'') [AErr e])))"
  using assms by (simp add: handleError_v1_def)

lemma v1_failure_status_takes_fallback:
  assumes "network w = Resolves r" "\<not> ok r"
  shows "promise_chain_v1 w S req st =
     try_finally
       (seq (emit (Fetch (get_prop S ''url'') req))
       (seq (emit (ConsoleError ''Error in fetch operation:''))
       (seq (emit (ToastrError (JStr ''An error occurred. Please try again.'')))
            (if truthy (get_prop S ''customErrorHandler'')
             then call w (get_prop S ''customErrorHandler'')
                    [AErr (case json_body r of
                             Inr json \<Rightarrow> NetworkError (status r) json
                           | Inl e \<Rightarrow> Platform e), AVal S]
             else only_if (truthy (get_prop S ''error''))
                    (call w (get_prop S ''error'')
                       [AErr (case json_body r of
                                Inr json \<Rightarrow> NetworkError (status r) json
                              | Inl e \<Rightarrow> Platform e)])))))
       (completion w S) st"
proof -
  have "error_status (case json_body r of
                        Inr json \<Rightarrow> NetworkError (status r) json
                      | Inl e \<Rightarrow> Platform e) \<noteq> JNum 422"
    by (simp split: sum.splits)
  from handleError_v1_fallback [OF this] show ?thesis
    unfolding promise_chain_v1_not_ok [OF assms] by simp
qed

text \<open>
  In both versions, the decoded body of a response with a status from 200 to 299 and a
  JSON content type is what \<^verbatim>\<open>processResponse\<close> is called with.
\<close>

lemma decoded_body_reaches_processResponse:
  assumes "network w = Resolves r" "ok r" "content_type r = Some ct"
    "str_includes ct ''application/json''" "json_body r = Inr data"
  shows "promise_chain v w S req st =
     try_finally
       (try_catch
          (seq (emit (Fetch (get_prop S ''url'') req)) (processResponse w data S))
          (\<lambda>error. case v of V1 \<Rightarrow> handleError_v1 w error S | V2 \<Rightarrow> handleError_v2 error S))
       (completion w S) st"
  using assms
  by (cases v)
     (simp_all add: promise_chain_v1_def promise_chain_v2_def try_finally_eq try_catch_eq
        and_then_eq fetch_eq validateResponse_def processContentType_def response_json_def
        raise_def ret_def seq_def emit_def split: sum.splits)

text \<open>
  Version 2.0.0 on a response whose status is outside 200 to 299: the chain rejects
  with \<^verbatim>\<open>{ response }\<close> before \<^verbatim>\<open>validateResponse\<close> is reached, and
  \<^verbatim>\<open>handleError\<close> starts the decoding of the body for the status 422 and shows a
  notification for every other status.
\<close>

lemma promise_chain_v2_not_ok:
  assumes "network w = Resolves r" "\<not> ok r"
  shows "promise_chain_v2 w S req st =
        try_finally
          (seq (emit (Fetch (get_prop S ''url'') req))
               (if status r = 422 then schedule (Decode422 r S)
                else emit (ToastrError (JStr ''An unexpected error occurred.''))))
          (completion w S) st"
proof -
  have "promise_chain_v2 w S req st =
        try_finally
          (seq (emit (Fetch (get_prop S ''url'') req)) (handleError_v2 (Wrapped r) S))
          (completion w S) st"
    using assms
    by (simp add: promise_chain_v2_def try_finally_eq try_catch_eq and_then_eq fetch_eq
          raise_def ret_def seq_def emit_def split: sum.splits)
  then show ?thesis
    by (simp add: handleError_v2_def)
qed

lemma validateResponse_not_ok:
  "\<not> ok r \<Longrightarrow>
   validateResponse r st =
     (Inl (case json_body r of
             Inr json \<Rightarrow> NetworkError (status r) json
           | Inl e \<Rightarrow> Platform e), st, [])"
  by (simp add: validateResponse_def and_then_eq response_json_def raise_def ret_def
        split: sum.splits)

lemma run_task_v2_undecodable:
  "json_body r = Inl e \<Longrightarrow>
   run_task_v2 w (Decode422 r S) st =
     (Inr (), st, [ConsoleError ''Error parsing JSON response:''])"
  by (simp add: try_catch_eq and_then_eq response_json_def raise_def emit_def)

lemma run_task_v2_decoded:
  "json_body r = Inr json \<Longrightarrow>
   run_task_v2 w (Decode422 r S) st =
     try_catch (show_validation_v2 w json S)
       (\<lambda>jsonError. emit (ConsoleError ''Error parsing JSON response:'')) st"
  by (simp add: try_catch_def and_then_def response_json_def ret_def)


subsection \<open>Settings that are not read\<close>

lemma filter_update:
  "filter (\<lambda>kv. \<not> swal_key (fst kv)) (AList.update k v al) =
     (if swal_key k then filter (\<lambda>kv. \<not> swal_key (fst kv)) al
      else AList.update k v (filter (\<lambda>kv. \<not> swal_key (fst kv)) al))"
  by (induction al) auto

lemma filter_fold_update:
  "filter (\<lambda>kv. \<not> swal_key (fst kv)) (fold (\<lambda>(k, v). AList.update k v) kvs al) =
     fold (\<lambda>(k, v). AList.update k v) (filter (\<lambda>kv. \<not> swal_key (fst kv)) kvs)
       (filter (\<lambda>kv. \<not> swal_key (fst kv)) al)"
  by (induction kvs arbitrary: al) (auto simp: filter_update)

lemma strip_own_props:
  "strip_val a = strip_val b \<Longrightarrow>
     filter (\<lambda>kv. \<not> swal_key (fst kv)) (own_props a)
       = filter (\<lambda>kv. \<not> swal_key (fst kv)) (own_props b)"
  by (cases a; cases b) auto

lemma map_of_filter_key:
  "\<not> swal_key k \<Longrightarrow> map_of (filter (\<lambda>kv. \<not> swal_key (fst kv)) al) k = map_of al k"
  by (induction al) auto

lemma get_prop_strip: "\<not> swal_key k \<Longrightarrow> get_prop (strip_val v) k = get_prop v k"
  by (cases v) (simp_all add: get_prop_def map_of_filter_key)

lemma truthy_strip: "truthy (strip_val v) = truthy v"
  by (cases v) simp_all

lemma is_element_strip: "is_element (strip_val v) = is_element v"
  by (cases v) simp_all

lemma agree_get:
  assumes "strip_val S = strip_val S'" "\<not> swal_key k"
  shows "get_prop S' k = get_prop S k"
  using get_prop_strip [OF assms(2), of S] get_prop_strip [OF assms(2), of S'] assms(1)
  by simp

lemma agree_truthy:
  assumes "strip_val S = strip_val S'"
  shows "truthy S' = truthy S"
  using truthy_strip [of S] truthy_strip [of S'] assms by simp

lemma strip_merge_settings:
  assumes "strip_val a = strip_val b"
  shows "strip_val (merge_settings body a) = strip_val (merge_settings body b)"
  using strip_own_props [OF assms]
  by (simp add: merge_settings_def Object_assign_def filter_fold_update)

lemma strip_resolve_settings:
  assumes "strip_val a = strip_val b"
  shows "strip_val (resolve_settings body a) = strip_val (resolve_settings body b)"
proof -
  have m: "strip_val (merge_settings body a) = strip_val (merge_settings body b)"
    by (rule strip_merge_settings [OF assms])
  have k: "\<not> swal_key ''beforeSend''"
    by (simp add: swal_key_def)
  have g: "get_prop (merge_settings body b) ''beforeSend''
             = get_prop (merge_settings body a) ''beforeSend''"
    by (rule agree_get [OF m k])
  have f: "filter (\<lambda>kv. \<not> swal_key (fst kv)) (own_props (merge_settings body a))
         = filter (\<lambda>kv. \<not> swal_key (fst kv)) (own_props (merge_settings body b))"
    by (rule strip_own_props [OF m])
  show ?thesis
    by (simp add: resolve_settings_def Let_def filter_update k g f)
qed

text \<open>Every combinator keeps the relation.\<close>

lemma alike_refl: "alike st st"
  by (simp add: alike_def)

lemma sim_ret: "sim (ret a) (ret a)"
  by (simp add: sim_def ret_def)

lemma sim_raise: "sim (raise e) (raise e)"
  by (simp add: sim_def raise_def)

lemma sim_emit: "strip_event e = strip_event e' \<Longrightarrow> sim (emit e) (emit e')"
  by (simp add: sim_def emit_def)

lemma sim_ask: "sim (ask f) (ask f)"
  by (simp add: sim_def ask_def alike_def)

lemma sim_dom_do: "sim (dom_do op) (dom_do op)"
  by (simp add: sim_def dom_do_def alike_def)

lemma sim_schedule: "strip_task t = strip_task t' \<Longrightarrow> sim (schedule t) (schedule t')"
  by (simp add: sim_def schedule_def alike_def)

lemma sim_and_then:
  assumes "sim m m'" "\<And>a. sim (f a) (f' a)"
  shows "sim (and_then m f) (and_then m' f')"
  unfolding sim_def
proof (intro allI impI)
  fix st st' assume a: "alike st st'"
  from assms(1) a have r: "result_of (m st) = result_of (m' st')"
    and s: "alike (state_of (m st)) (state_of (m' st'))"
    and e: "map strip_event (events_of (m st)) = map strip_event (events_of (m' st'))"
    by (simp_all add: sim_def)
  show "result_of (and_then m f st) = result_of (and_then m' f' st') \<and>
       alike (state_of (and_then m f st)) (state_of (and_then m' f' st')) \<and>
       map strip_event (events_of (and_then m f st)) =
       map strip_event (events_of (and_then m' f' st'))"
  proof (cases "result_of (m' st')")
    case (Inl x)
    with r s e show ?thesis by (simp add: and_then_eq)
  next
    case (Inr x)
    from assms(2) [of x] s
    have "result_of (f x (state_of (m st))) = result_of (f' x (state_of (m' st')))"
      "alike (state_of (f x (state_of (m st)))) (state_of (f' x (state_of (m' st'))))"
      "map strip_event (events_of (f x (state_of (m st))))
         = map strip_event (events_of (f' x (state_of (m' st'))))"
      by (simp_all add: sim_def)
    with Inr r e show ?thesis by (simp add: and_then_eq)
  qed
qed

lemma sim_seq: "sim m m' \<Longrightarrow> sim n n' \<Longrightarrow> sim (seq m n) (seq m' n')"
  by (simp add: seq_def sim_and_then)

lemma sim_try_catch:
  assumes "sim m m'" "\<And>e. sim (h e) (h' e)"
  shows "sim (try_catch m h) (try_catch m' h')"
  unfolding sim_def
proof (intro allI impI)
  fix st st' assume a: "alike st st'"
  from assms(1) a have r: "result_of (m st) = result_of (m' st')"
    and s: "alike (state_of (m st)) (state_of (m' st'))"
    and e: "map strip_event (events_of (m st)) = map strip_event (events_of (m' st'))"
    by (simp_all add: sim_def)
  show "result_of (try_catch m h st) = result_of (try_catch m' h' st') \<and>
       alike (state_of (try_catch m h st)) (state_of (try_catch m' h' st')) \<and>
       map strip_event (events_of (try_catch m h st)) =
       map strip_event (events_of (try_catch m' h' st'))"
  proof (cases "result_of (m' st')")
    case (Inr x)
    with r s e show ?thesis by (simp add: try_catch_eq)
  next
    case (Inl x)
    from assms(2) [of x] s
    have "result_of (h x (state_of (m st))) = result_of (h' x (state_of (m' st')))"
      "alike (state_of (h x (state_of (m st)))) (state_of (h' x (state_of (m' st'))))"
      "map strip_event (events_of (h x (state_of (m st))))
         = map strip_event (events_of (h' x (state_of (m' st'))))"
      by (simp_all add: sim_def)
    with Inl r e show ?thesis by (simp add: try_catch_eq)
  qed
qed

lemma sim_try_finally:
  assumes "sim m m'" "sim fin fin'"
  shows "sim (try_finally m fin) (try_finally m' fin')"
  unfolding sim_def
proof (intro allI impI)
  fix st st' assume a: "alike st st'"
  from assms(1) a have r: "result_of (m st) = result_of (m' st')"
    and s: "alike (state_of (m st)) (state_of (m' st'))"
    and e: "map strip_event (events_of (m st)) = map strip_event (events_of (m' st'))"
    by (simp_all add: sim_def)
  from assms(2) s
  have "result_of (fin (state_of (m st))) = result_of (fin' (state_of (m' st')))"
    "alike (state_of (fin (state_of (m st)))) (state_of (fin' (state_of (m' st'))))"
    "map strip_event (events_of (fin (state_of (m st))))
       = map strip_event (events_of (fin' (state_of (m' st'))))"
    by (simp_all add: sim_def)
  with r e
  show "result_of (try_finally m fin st) = result_of (try_finally m' fin' st') \<and>
       alike (state_of (try_finally m fin st)) (state_of (try_finally m' fin' st')) \<and>
       map strip_event (events_of (try_finally m fin st)) =
       map strip_event (events_of (try_finally m' fin' st'))"
    by (simp add: try_finally_eq split: sum.splits)
qed

lemma sim_settle: "sim m m' \<Longrightarrow> sim (settle m) (settle m')"
  by (simp add: settle_def sim_try_catch sim_emit)

lemma sim_only_if: "(b \<Longrightarrow> sim m m') \<Longrightarrow> sim (only_if b m) (only_if b m')"
  by (simp add: only_if_def sim_ret)

lemma sim_for_each: "(\<And>x. sim (f x) (f' x)) \<Longrightarrow> sim (for_each xs f) (for_each xs f')"
  by (induction xs) (simp_all add: sim_ret sim_seq)

lemma sim_if:
  "(c \<Longrightarrow> sim a a') \<Longrightarrow> (\<not> c \<Longrightarrow> sim b b') \<Longrightarrow>
     sim (if c then a else b) (if c then a' else b')"
  by simp

lemmas sim_intros = sim_ret sim_raise sim_ask sim_dom_do sim_and_then sim_seq
  sim_try_catch sim_try_finally sim_settle sim_only_if sim_for_each sim_if

lemma sim_as_element: "sim (as_element v m) (as_element v m)"
  by (simp add: as_element_def sim_ret sim_raise split: jsval.splits)

lemma sim_querySelectorAll: "sim (querySelectorAll el sel) (querySelectorAll el sel)"
  unfolding querySelectorAll_def by (intro sim_intros sim_as_element)

lemma sim_querySelector: "sim (querySelector el sel) (querySelector el sel)"
  unfolding querySelector_def by (intro sim_intros sim_as_element)

lemma sim_querySelectorAll_css:
  "sim (querySelectorAll_css w el sel) (querySelectorAll_css w el sel)"
  unfolding querySelectorAll_css_def
  by (intro sim_intros sim_as_element | simp add: sim_intros split: option.splits)+

lemma sim_querySelector_name:
  "sim (querySelector_name w el f) (querySelector_name w el f)"
  unfolding querySelector_name_def
  by (intro sim_intros sim_as_element sim_querySelector
      | simp add: sim_intros split: option.splits)+

lemma sim_parentNode: "sim (parentNode el) (parentNode el)"
  unfolding parentNode_def by (intro sim_intros sim_as_element)

lemma sim_closest: "sim (closest el sel) (closest el sel)"
  unfolding closest_def by (intro sim_intros sim_as_element)

lemma sim_read_prop: "sim (read_prop v k) (read_prop v k)"
  unfolding read_prop_def by (intro sim_intros)

lemma sim_Object_entries: "sim (Object_entries v) (Object_entries v)"
  unfolding Object_entries_def by (intro sim_intros)

lemma sim_response_json: "sim (response_json r) (response_json r)"
  by (simp add: response_json_def sim_ret sim_raise split: sum.splits)

lemma sim_response_text: "sim (response_text r) (response_text r)"
  by (simp add: response_text_def sim_ret sim_raise split: sum.splits)

lemmas sim_dom_api = sim_as_element sim_querySelectorAll sim_querySelector
  sim_querySelectorAll_css sim_querySelector_name sim_parentNode sim_closest
  sim_read_prop sim_Object_entries sim_response_json sim_response_text

text \<open>
  The functions read no setting with one of the two names, so they keep the relation
  when the settings differ in those only.
\<close>

lemma swal_key_simps [simp]:
  "\<not> swal_key ''container''" "\<not> swal_key ''disableButton''" "\<not> swal_key ''buttonSelector''"
  "\<not> swal_key ''redirect''" "\<not> swal_key ''formReset''" "\<not> swal_key ''showToastrMsg''"
  "\<not> swal_key ''customSuccessHandler''" "\<not> swal_key ''success''" "\<not> swal_key ''data''"
  "\<not> swal_key ''type''" "\<not> swal_key ''file''" "\<not> swal_key ''headers''"
  "\<not> swal_key ''beforeSend''" "\<not> swal_key ''complete''" "\<not> swal_key ''url''"
  "\<not> swal_key ''customErrorHandler''" "\<not> swal_key ''error''" "\<not> swal_key ''timeout''"
  by (simp_all add: swal_key_def)

lemmas agree_keys = swal_key_simps [THEN agree_get [rotated]]

lemma sim_toggleButtonLoading:
  assumes "strip_val S = strip_val S'"
  shows "sim (toggleButtonLoading w sel b S) (toggleButtonLoading w sel b S')"
  unfolding toggleButtonLoading_def agree_keys [OF assms] agree_truthy [OF assms]
  by (intro sim_intros sim_dom_api sim_emit
      | simp split del: if_split add: sim_intros sim_dom_api sim_emit
          split: jsval.splits option.splits)+

lemma sim_defaultBeforeSend:
  assumes "strip_val S = strip_val S'"
  shows "sim (defaultBeforeSend w S) (defaultBeforeSend w S')"
  unfolding defaultBeforeSend_def agree_keys [OF assms] agree_truthy [OF assms]
  by (intro sim_intros sim_toggleButtonLoading assms)

lemma sim_call:
  assumes "map strip_arg args = map strip_arg args'"
  shows "sim (call w f args) (call w f args')"
proof (cases f)
  case (JFun n)
  then show ?thesis
    unfolding call_def using assms
    by (auto intro!: sim_intros sim_emit split: option.splits)
next
  case JDefaultBeforeSend
  show ?thesis
  proof (cases args)
    case Nil
    with assms JDefaultBeforeSend show ?thesis by (simp add: call_def sim_ret)
  next
    case (Cons a as)
    with assms obtain a' as' where c: "args' = a' # as'" "strip_arg a = strip_arg a'"
      by (cases args') auto
    show ?thesis
    proof (cases a)
      case (AVal s)
      with c obtain s' where "a' = AVal s'" "strip_val s = strip_val s'"
        by (cases a') auto
      with AVal Cons c JDefaultBeforeSend show ?thesis
        by (simp add: call_def sim_defaultBeforeSend)
    next
      case (AErr e)
      with c have "a' = AErr e" by (cases a') auto
      with AErr Cons c JDefaultBeforeSend show ?thesis
        by (simp add: call_def sim_ret)
    qed
  qed
qed (simp_all add: call_def sim_raise)

lemma sim_validateResponse: "sim (validateResponse r) (validateResponse r)"
  unfolding validateResponse_def by (intro sim_intros sim_dom_api)

lemma sim_processContentType: "sim (processContentType r) (processContentType r)"
  unfolding processContentType_def
  by (simp add: sim_intros sim_dom_api split: option.splits)

lemma sim_clearValidationErrors: "sim (clearValidationErrors c) (clearValidationErrors c)"
  unfolding clearValidationErrors_def
  by (intro sim_intros sim_dom_api)

lemma sim_handleSuccess:
  assumes "strip_val S = strip_val S'"
  shows "sim (handleSuccess r S) (handleSuccess r S')"
  unfolding handleSuccess_def agree_keys [OF assms]
  by (intro sim_intros sim_dom_api sim_emit refl)

lemma sim_processResponse:
  assumes "strip_val S = strip_val S'"
  shows "sim (processResponse w data S) (processResponse w data S')"
  unfolding processResponse_def agree_keys [OF assms]
  by (intro sim_intros sim_handleSuccess sim_call assms | simp add: assms)+

lemma sim_createFormData:
  assumes "strip_val S = strip_val S'"
  shows "sim (createFormData S) (createFormData S')"
  unfolding createFormData_def agree_keys [OF assms]
  by (intro sim_intros sim_dom_api
      | simp split del: if_split add: sim_intros split: jsval.splits)+

lemma request_base_agree:
  assumes "strip_val S = strip_val S'"
  shows "request_base S' m = request_base S m"
  unfolding request_base_def agree_keys [OF assms] by (rule refl)

lemma sim_requestOptions:
  assumes "strip_val S = strip_val S'"
  shows "sim (requestOptions S) (requestOptions S')"
  unfolding requestOptions_def agree_keys [OF assms] request_base_agree [OF assms]
  by (intro sim_intros sim_dom_api sim_createFormData assms
      | simp split del: if_split add: sim_intros sim_createFormData assms
          split: jsval.splits option.splits)+

lemma sim_run_beforeSend:
  assumes "strip_val S = strip_val S'"
  shows "sim (run_beforeSend w S) (run_beforeSend w S')"
  unfolding run_beforeSend_def agree_keys [OF assms]
  by (intro sim_intros sim_call sim_defaultBeforeSend assms | simp add: assms)+

lemma sim_completion:
  assumes "strip_val S = strip_val S'"
  shows "sim (completion w S) (completion w S')"
  unfolding completion_def agree_keys [OF assms]
  by (intro sim_intros sim_call sim_toggleButtonLoading sim_emit assms refl)

lemma sim_fetch: "sim (fetch w url options) (fetch w url options)"
  unfolding fetch_def
  by (intro sim_intros sim_emit | simp add: sim_intros split: fetch_result.splits)+

lemma sim_displayValidationError_v2:
  "sim (displayValidationError_v2 i m) (displayValidationError_v2 i m)"
  unfolding displayValidationError_v2_def
  by (intro sim_intros sim_dom_api)

lemma sim_displayValidationError_v1:
  "sim (displayValidationError_v1 i m) (displayValidationError_v1 i m)"
  unfolding displayValidationError_v1_def
  by (intro sim_intros sim_dom_api)

lemma sim_handleError_v2:
  assumes "strip_val S = strip_val S'"
  shows "sim (handleError_v2 e S) (handleError_v2 e S')"
  unfolding handleError_v2_def
  by (simp add: sim_intros sim_emit sim_schedule assms split: option.splits)

lemma sim_handleError_v1:
  assumes "strip_val S = strip_val S'"
  shows "sim (handleError_v1 w e S) (handleError_v1 w e S')"
  unfolding handleError_v1_def agree_keys [OF assms]
  by (intro sim_intros sim_call sim_emit sim_schedule assms
      | simp split del: if_split add: sim_intros sim_emit sim_schedule assms
          split: thrown.splits)+

lemma sim_show_validation_v2:
  assumes "strip_val S = strip_val S'"
  shows "sim (show_validation_v2 w errorJson S) (show_validation_v2 w errorJson S')"
  unfolding show_validation_v2_def agree_keys [OF assms]
  by (intro sim_intros sim_dom_api sim_displayValidationError_v2 sim_emit
      | simp split del: if_split add: split_def)+

lemma sim_show_validation_v1:
  assumes "strip_val S = strip_val S'"
  shows "sim (show_validation_v1 w errorJson S) (show_validation_v1 w errorJson S')"
  unfolding show_validation_v1_def agree_keys [OF assms]
  by (intro sim_intros sim_dom_api sim_displayValidationError_v1 sim_emit
      | simp split del: if_split add: split_def)+

lemma sim_run_task:
  assumes "strip_task t = strip_task t'"
  shows "sim (run_task v w t) (run_task v w t')"
proof -
  obtain r S where t: "t = Decode422 r S" by (cases t)
  obtain r' S' where t': "t' = Decode422 r' S'" by (cases t')
  from assms t t' have r: "r' = r" and S: "strip_val S = strip_val S'" by simp_all
  show ?thesis
    unfolding t t' r
    by (cases v)
       (auto intro!: sim_intros sim_dom_api sim_show_validation_v1 sim_show_validation_v2
          sim_emit S)
qed

lemma sim_tasks:
  "map strip_task ts = map strip_task ts' \<Longrightarrow>
     sim (for_each ts (run_task v w)) (for_each ts' (run_task v w))"
proof (induction ts arbitrary: ts')
  case Nil
  then show ?case by (simp add: sim_ret)
next
  case (Cons t ts)
  then obtain u us where "ts' = u # us" "strip_task t = strip_task u"
    "map strip_task ts = map strip_task us"
    by (cases ts') auto
  with Cons.IH [of us] show ?case
    by (simp add: sim_seq sim_run_task)
qed

lemma sim_drain:
  "sim (and_then take_pending (\<lambda>tasks. for_each tasks (run_task v w)))
       (and_then take_pending (\<lambda>tasks. for_each tasks (run_task v w)))"
  unfolding sim_def
proof (intro allI impI)
  fix st st' assume a: "alike st st'"
  let ?D = "and_then take_pending (\<lambda>tasks. for_each tasks (run_task v w))"
  have u: "?D s = for_each (pending s) (run_task v w) (s\<lparr>pending := []\<rparr>)" for s
    by (simp add: and_then_def take_pending_def)
  from a have "map strip_task (pending st) = map strip_task (pending st')"
    and "alike (st\<lparr>pending := []\<rparr>) (st'\<lparr>pending := []\<rparr>)"
    by (simp_all add: alike_def)
  with sim_tasks [of "pending st" "pending st'" v w]
  show "result_of (?D st) = result_of (?D st') \<and>
        alike (state_of (?D st)) (state_of (?D st')) \<and>
        map strip_event (events_of (?D st)) = map strip_event (events_of (?D st'))"
    unfolding u by (simp add: sim_def)
qed

lemma sim_promise_chain:
  assumes "strip_val S = strip_val S'"
  shows "sim (promise_chain v w S req) (promise_chain v w S' req)"
proof (cases v)
  case V1
  show ?thesis
    unfolding V1 promise_chain.simps promise_chain_v1_def agree_keys [OF assms]
    by (intro sim_intros sim_fetch sim_validateResponse sim_processContentType
          sim_processResponse sim_handleError_v1 sim_completion assms)
next
  case V2
  show ?thesis
    unfolding V2 promise_chain.simps promise_chain_v2_def agree_keys [OF assms]
    by (intro sim_intros sim_fetch sim_validateResponse sim_processContentType
          sim_processResponse sim_handleError_v2 sim_completion assms)
qed

lemma sim_body:
  assumes "strip_val S = strip_val S'"
  shows "sim (seq (clearValidationErrors (get_prop S ''container''))
     (and_then (requestOptions S) (\<lambda>req.
      seq (run_beforeSend w S)
     (seq (emit (SetTimeout (get_prop S ''timeout'')))
     (seq (settle (promise_chain v w S req))
          (and_then take_pending (\<lambda>tasks. for_each tasks (run_task v w))))))))
     (seq (clearValidationErrors (get_prop S' ''container''))
     (and_then (requestOptions S') (\<lambda>req.
      seq (run_beforeSend w S')
     (seq (emit (SetTimeout (get_prop S' ''timeout'')))
     (seq (settle (promise_chain v w S' req))
          (and_then take_pending (\<lambda>tasks. for_each tasks (run_task v w))))))))"
  unfolding agree_keys [OF assms]
  by (intro sim_drain sim_clearValidationErrors sim_requestOptions
      sim_run_beforeSend sim_promise_chain sim_seq sim_and_then sim_settle sim_emit assms refl)

section \<open>The claims\<close>

text \<open>
  C1, counterexample. The caller passes \<^verbatim>\<open>{toastrOptions: {closeButton: false}}\<close>.
  The default of the nested key \<^verbatim>\<open>debug\<close> is \<^verbatim>\<open>false\<close>, and the merged settings
  have no \<^verbatim>\<open>toastrOptions.debug\<close> at all: the caller's nested object does not keep
  the defaults of the keys it does not mention.
\<close>

theorem nested_defaults_not_kept:
  "get_prop toastrOptions_default ''debug'' = JBool False \<and>
   get_prop (get_prop
      (merge_settings (JElem 3)
         (JObj [(''toastrOptions'', JObj [(''closeButton'', JBool False)])]))
      ''toastrOptions'') ''debug'' = JUndefined"
  by (simp add: get_prop_def merge_settings_def Object_assign_def defaults_def
        toastrOptions_default_def)

text \<open>
  C1, as amended. For every configuration merge, a key that the caller omits has the
  value of the defaults (\<^verbatim>\<open>type\<close> is \<^verbatim>\<open>'GET'\<close>, \<^verbatim>\<open>timeout\<close> is 5000, \<^verbatim>\<open>file\<close> is
  \<^verbatim>\<open>false\<close>), and a key that the caller supplies has exactly the caller's value. The
  merge is one level deep: a nested object such as \<^verbatim>\<open>toastrOptions\<close> that the caller
  supplies replaces the default object as a whole.
\<close>

theorem settings_merge_one_level:
  assumes "distinct (map fst opts)"
  shows "(map_of opts k = None \<longrightarrow>
            get_prop (merge_settings body (JObj opts)) k = get_prop (JObj (defaults body)) k)
       \<and> (\<forall>v. map_of opts k = Some v \<longrightarrow> get_prop (merge_settings body (JObj opts)) k = v)
       \<and> (\<forall>t. map_of opts ''toastrOptions'' = Some t \<longrightarrow>
            get_prop (merge_settings body (JObj opts)) ''toastrOptions'' = t)
       \<and> get_prop (JObj (defaults body)) ''type'' = JStr ''GET''
       \<and> get_prop (JObj (defaults body)) ''timeout'' = JNum 5000
       \<and> get_prop (JObj (defaults body)) ''file'' = JBool False
       \<and> get_prop (JObj (defaults body)) ''toastrOptions'' = toastrOptions_default"
proof -
  have d: "distinct (map fst (own_props (JObj opts)))"
    using assms by simp
  have "get_prop (JObj (defaults body)) ''type'' = JStr ''GET''"
    and "get_prop (JObj (defaults body)) ''timeout'' = JNum 5000"
    and "get_prop (JObj (defaults body)) ''file'' = JBool False"
    and "get_prop (JObj (defaults body)) ''toastrOptions'' = toastrOptions_default"
    by (simp_all add: get_prop_def defaults_def)
  then show ?thesis
    using get_prop_merge_settings [OF d, of body k]
      get_prop_merge_settings [OF d, of body "''toastrOptions''"]
    by simp
qed

theorem settings_merge_one_level_witness:
  "get_prop (merge_settings (JElem 3)
      (JObj [(''type'', JStr ''POST''),
             (''toastrOptions'', JObj [(''closeButton'', JBool False)])])) ''timeout''
     = JNum 5000
   \<and> get_prop (merge_settings (JElem 3)
      (JObj [(''type'', JStr ''POST''),
             (''toastrOptions'', JObj [(''closeButton'', JBool False)])])) ''type''
     = JStr ''POST''
   \<and> get_prop (merge_settings (JElem 3)
      (JObj [(''type'', JStr ''POST''),
             (''toastrOptions'', JObj [(''closeButton'', JBool False)])])) ''toastrOptions''
     = JObj [(''closeButton'', JBool False)]"
  using settings_merge_one_level
      [of "[(''type'', JStr ''POST''),
            (''toastrOptions'', JObj [(''closeButton'', JBool False)])]"
          "''timeout''" "JElem 3"]
    settings_merge_one_level
      [of "[(''type'', JStr ''POST''),
            (''toastrOptions'', JObj [(''closeButton'', JBool False)])]"
          "''type''" "JElem 3"]
  by simp

text \<open>
  C2, the code at a failing input. Version 2.0.0 is called for \<^verbatim>\<open>POST /save\<close> with
  both \<^verbatim>\<open>customErrorHandler\<close> (function 1) and \<^verbatim>\<open>error\<close> (function 3), and the
  server answers 500. The run shows the notification and the completion step, and calls
  neither function: \<^verbatim>\<open>handleError\<close> of this version never reads the two settings.
\<close>

theorem v2_calls_no_error_callback:
  "events_of (easyAjax V2 (example_world (Resolves (undecodable_response 500)))
      save_options example_page) =
     [Dom (SetAttribute 9 ''data-kt-indicator'' ''on''), Dom (SetDisabled 9 True),
      SetTimeout (JNum 5000), Fetch (JStr ''/save'') save_request,
      ToastrError (JStr ''An unexpected error occurred.''),
      ClearTimeout, Dom (RemoveAttribute 9 ''data-kt-indicator''),
      Dom (SetDisabled 9 False)]"
  by code_simp

text \<open>
  No call made by \<^verbatim>\<open>handleError\<close> of version 2.0.0 is a call of a function of the
  caller's, whatever the error and the settings.
\<close>

lemma handleError_v2_calls_nothing:
  "Call n args \<notin> set (events_of (handleError_v2 error settings st))"
  using onlyD [OF only_handleError_v2 [of "\<lambda>e. \<forall>n args. e \<noteq> Call n args" error settings],
      of "Call n args" st]
  by auto

text \<open>
  Version 1.2.8 on the same input calls \<^verbatim>\<open>customErrorHandler(error, settings)\<close>, and
  its \<^verbatim>\<open>handleError\<close> does so for every error that is not a Response with status 422.
\<close>

lemma handleError_v1_calls_handler:
  assumes "get_prop settings ''customErrorHandler'' = JFun n" "error_status error \<noteq> JNum 422"
  shows "handleError_v1 w error settings st =
           (case throws w n of None \<Rightarrow> Inr () | Some x \<Rightarrow> Inl x, st,
            [ConsoleError ''Error in fetch operation:'',
             ToastrError (JStr ''An error occurred. Please try again.''),
             Call n [AErr error, AVal settings]])"
  using assms
  by (simp add: handleError_v1_def seq_def and_then_eq emit_def call_fun split: option.splits)

lemma v1_calls_customErrorHandler:
  "Call 1 [AErr (Platform JsonSyntaxError),
           AVal (resolve_settings (JElem 3) save_options)]
     \<in> set (events_of (easyAjax V1 (example_world (Resolves (undecodable_response 500)))
               save_options example_page))"
  by code_simp

text \<open>
  C3, the code at a failing input. Version 1.2.8 is called for \<^verbatim>\<open>POST /save\<close> and the
  server answers 422 with messages for \<^verbatim>\<open>email\<close>, \<^verbatim>\<open>name\<close> and \<^verbatim>\<open>zip\<close>.
  \<^verbatim>\<open>validateResponse\<close> turns the response into an Error, which has no \<^verbatim>\<open>status\<close>,
  so \<^verbatim>\<open>handleError\<close> takes its fallback branch: the generic notification is shown,
  no inline message is rendered and the page is left as it was.
\<close>

theorem v1_renders_no_validation_message:
  "events_of (easyAjax V1 (example_world (Resolves (json_response 422 validation_body)))
      (JObj [(''type'', JStr ''POST''), (''url'', JStr ''/save'')]) example_page) =
     [Dom (SetAttribute 9 ''data-kt-indicator'' ''on''), Dom (SetDisabled 9 True),
      SetTimeout (JNum 5000), Fetch (JStr ''/save'') save_request,
      ConsoleError ''Error in fetch operation:'',
      ToastrError (JStr ''An error occurred. Please try again.''),
      ClearTimeout, Dom (RemoveAttribute 9 ''data-kt-indicator''),
      Dom (SetDisabled 9 False)]
   \<and> page_of (easyAjax V1 (example_world (Resolves (json_response 422 validation_body)))
      (JObj [(''type'', JStr ''POST''), (''url'', JStr ''/save'')]) example_page)
     = example_page"
  by code_simp

text \<open>
  Version 2.0.0 on the same input does what the claim says: one summary notification
  with the body's message, then one inline message under \<^verbatim>\<open>email\<close> and one under
  \<^verbatim>\<open>name\<close>, each the first of its list; \<^verbatim>\<open>zip\<close>, which has no input, is skipped.
\<close>

lemma v2_renders_validation_messages:
  "events_of (easyAjax V2 (example_world (Resolves (json_response 422 validation_body)))
      (JObj [(''type'', JStr ''POST''), (''url'', JStr ''/save'')]) example_page) =
     [Dom (SetAttribute 9 ''data-kt-indicator'' ''on''), Dom (SetDisabled 9 True),
      SetTimeout (JNum 5000), Fetch (JStr ''/save'') save_request,
      ClearTimeout, Dom (RemoveAttribute 9 ''data-kt-indicator''),
      Dom (SetDisabled 9 False),
      ToastrError (JStr ''The given data was invalid.''),
      Dom (AddClass 6 ''is-invalid''),
      Dom (AppendChild 5
        (Node \<lparr>eid = 10, tag = ''div'', attrs = [], classes = [''invalid-feedback''],
               innerText = JStr ''Email is required'', disabled = False\<rparr> [])),
      Dom (AddClass 8 ''is-invalid''),
      Dom (AppendChild 7
        (Node \<lparr>eid = 11, tag = ''div'', attrs = [], classes = [''invalid-feedback''],
               innerText = JStr ''Name is required'', disabled = False\<rparr> []))]"
  by code_simp




text \<open>The form of the upload is the form of the container, which is the body.\<close>

lemma upload_form_is_in_container:
  "get_prop (resolve_settings (document_body example_page) upload_options) ''container''
     = JElem 3
   \<and> select_all (ByTag ''form'') 3
        (page_of (clearValidationErrors (JElem 3) \<lparr>dom = example_page, pending = []\<rparr>))
     = [4]
   \<and> req_body upload_request = BodyFormData 4 [(''note'', JStr ''hi'')]"
  by code_simp

text \<open>
  C5, counterexample. A \<^verbatim>\<open>GET\<close> (the default method) on a page without the
  \<^verbatim>\<open>csrf-token\<close> tag: \<^verbatim>\<open>easyAjax\<close> throws the TypeError of
  \<^verbatim>\<open>null.getAttribute\<close>, and nothing has happened, no request in particular.
\<close>

theorem get_without_meta_throws:
  "easyAjax V2 (example_world (Resolves (json_response 200 JNull)))
      (JObj [(''url'', JStr ''/list'')]) page_without_meta =
     (Inl (TypeError ''getAttribute''), \<lparr>dom = page_without_meta, pending = []\<rparr>, [])"
  by code_simp

text \<open>
  C5, as amended. In both versions, when the page has no \<^verbatim>\<open>csrf-token\<close> meta tag,
  \<^verbatim>\<open>easyAjax\<close> throws and issues no request, whatever the method, \<^verbatim>\<open>GET\<close>
  included; and when a request is issued and the caller supplied a truthy
  \<^verbatim>\<open>X-CSRF-TOKEN\<close> header, the request carries the caller's value for it.
\<close>

theorem csrf_meta_required:
  "(document_select (ByTagAttr ''meta'' ''name'' ''csrf-token'') page = None \<longrightarrow>
      (\<exists>e. result_of (easyAjax v w options page) = Inl e)
      \<and> (\<forall>url req. Fetch url req \<notin> set (events_of (easyAjax v w options page))))
   \<and> (\<forall>url req.
        Fetch url req \<in> set (events_of (easyAjax v w options page))
        \<and> truthy (get_prop (resolve_settings (document_body page) options) ''headers'')
        \<and> truthy (get_prop (get_prop (resolve_settings (document_body page) options) ''headers'')
                    ''X-CSRF-TOKEN'') \<longrightarrow>
        map_of (req_headers req) ''X-CSRF-TOKEN''
          = Some (get_prop (get_prop (resolve_settings (document_body page) options) ''headers'')
                    ''X-CSRF-TOKEN''))"
proof (intro conjI impI allI)
  assume none: "document_select (ByTagAttr ''meta'' ''name'' ''csrf-token'') page = None"
  let ?S = "resolve_settings (document_body page) options"
  let ?Q = "\<lambda>root. document_select (ByTagAttr ''meta'' ''name'' ''csrf-token'') root = None"
  have "preserves ?Q (clearValidationErrors (get_prop ?S ''container''))"
    by (intro preserves_clearValidationErrors apply_Remove_document_select
          apply_RemoveClass_document_select) simp_all
  with none have "?Q (dom (state_of (clearValidationErrors (get_prop ?S ''container'')
                     \<lparr>dom = page, pending = []\<rparr>)))"
    by (simp add: preserves_def)
  then have "\<exists>e. result_of (requestOptions ?S (state_of (clearValidationErrors
                     (get_prop ?S ''container'') \<lparr>dom = page, pending = []\<rparr>))) = Inl e"
    by (simp add: requestOptions_no_meta)
  then have r: "(\<exists>e. result_of (easyAjax v w options page) = Inl e)
       \<and> (\<forall>url req. Fetch url req \<notin> set (events_of (easyAjax v w options page)))"
    by (intro easyAjax_raises)
  from r show "\<exists>e. result_of (easyAjax v w options page) = Inl e" by blast
  from r show "Fetch url req \<notin> set (events_of (easyAjax v w options page))" for url req
    by blast
next
  fix url req
  assume a: "Fetch url req \<in> set (events_of (easyAjax v w options page))
        \<and> truthy (get_prop (resolve_settings (document_body page) options) ''headers'')
        \<and> truthy (get_prop (get_prop (resolve_settings (document_body page) options) ''headers'')
                    ''X-CSRF-TOKEN'')"
  then obtain st where "result_of (requestOptions (resolve_settings (document_body page) options) st)
           = Inr req"
    using fetch_origin by blast
  with a show "map_of (req_headers req) ''X-CSRF-TOKEN''
          = Some (get_prop (get_prop (resolve_settings (document_body page) options) ''headers'')
                    ''X-CSRF-TOKEN'')"
    by (intro requestOptions_csrf [of _ st]) simp_all
qed

theorem csrf_meta_required_witness:
  "document_select (ByTagAttr ''meta'' ''name'' ''csrf-token'') page_without_meta = None
   \<and> (\<exists>e. result_of (easyAjax V1 (example_world (Rejects (Platform AbortError)))
              search_options page_without_meta) = Inl e)
   \<and> (\<forall>url req. Fetch url req \<notin> set (events_of
         (easyAjax V1 (example_world (Rejects (Platform AbortError)))
            search_options page_without_meta)))
   \<and> Fetch (JStr ''/search'') search_request
       \<in> set (events_of (easyAjax V2 (example_world (Resolves (json_response 200 JNull)))
                 search_options example_page))
   \<and> map_of (req_headers search_request) ''X-CSRF-TOKEN''
       = Some (get_prop (get_prop (resolve_settings (document_body example_page)
                 search_options) ''headers'') ''X-CSRF-TOKEN'')"
proof -
  have none: "document_select (ByTagAttr ''meta'' ''name'' ''csrf-token'') page_without_meta
                = None"
    by code_simp
  have issued: "Fetch (JStr ''/search'') search_request
       \<in> set (events_of (easyAjax V2 (example_world (Resolves (json_response 200 JNull)))
                 search_options example_page))"
    by code_simp
  have h1: "truthy (get_prop (resolve_settings (document_body example_page) search_options)
                      ''headers'')"
    by code_simp
  have h2: "truthy (get_prop (get_prop (resolve_settings (document_body example_page)
              search_options) ''headers'') ''X-CSRF-TOKEN'')"
    by code_simp
  show ?thesis
    using none issued h1 h2
      csrf_meta_required [of page_without_meta V1
        "example_world (Rejects (Platform AbortError))" search_options]
      csrf_meta_required [of example_page V2
        "example_world (Resolves (json_response 200 JNull))" search_options]
    by blast
qed

text \<open>
  C6. For every decoded body with a truthy \<^verbatim>\<open>error\<close> field, \<^verbatim>\<open>processResponse\<close>
  (the same in both versions) does none of the success steps: no validation mark is
  cleared, no redirect, no form reset, no success notification, and the page is as it
  was. It still calls \<^verbatim>\<open>customSuccessHandler(body, settings)\<close> when that is a function
  of the caller's, and otherwise \<^verbatim>\<open>success(body)\<close>, and this call is all that happens.
\<close>

theorem error_field_skips_success_ui:
  assumes "truthy (get_prop data ''error'')"
  shows "(\<forall>n. get_prop settings ''customSuccessHandler'' = JFun n \<longrightarrow>
            processResponse w data settings st =
              (case throws w n of None \<Rightarrow> Inr () | Some e \<Rightarrow> Inl e, st,
               [Call n [AVal data, AVal settings]]))
       \<and> (\<forall>n. \<not> truthy (get_prop settings ''customSuccessHandler'')
              \<and> get_prop settings ''success'' = JFun n \<longrightarrow>
            processResponse w data settings st =
              (case throws w n of None \<Rightarrow> Inr () | Some e \<Rightarrow> Inl e, st,
               [Call n [AVal data]]))
       \<and> list_all (\<lambda>e. \<not> success_ui e) (events_of (processResponse w data settings st))"
proof -
  let ?K = "if truthy (get_prop settings ''customSuccessHandler'')
          then call w (get_prop settings ''customSuccessHandler'') [AVal data, AVal settings]
          else only_if (truthy (get_prop settings ''success''))
                 (call w (get_prop settings ''success'') [AVal data])"
  have eq: "processResponse w data settings st = ?K st"
    using assms by (simp add: processResponse_def only_if_def seq_ret)
  have "only (\<lambda>e. \<not> success_ui e) ?K"
    by (intro only_intros only_call) simp_all
  then have "list_all (\<lambda>e. \<not> success_ui e) (events_of (?K st))"
    by (simp add: only_def)
  then show ?thesis
    unfolding eq by (auto simp: call_fun only_if_def)
qed

theorem error_field_skips_success_ui_witness:
  "truthy (get_prop (JObj [(''error'', JStr ''Quota exceeded''), (''url'', JStr ''/next''),
                           (''message'', JStr ''Saved'')]) ''error'')
   \<and> processResponse (example_world (Resolves (json_response 200 JNull)))
        (JObj [(''error'', JStr ''Quota exceeded''), (''url'', JStr ''/next''),
               (''message'', JStr ''Saved'')])
        (resolve_settings (JElem 3) (JObj [(''success'', JFun 1)]))
        \<lparr>dom = example_page, pending = []\<rparr>
      = (Inr (), \<lparr>dom = example_page, pending = []\<rparr>,
         [Call 1 [AVal (JObj [(''error'', JStr ''Quota exceeded''), (''url'', JStr ''/next''),
                              (''message'', JStr ''Saved'')])]])"
proof -
  have e: "truthy (get_prop (JObj [(''error'', JStr ''Quota exceeded''), (''url'', JStr ''/next''),
                           (''message'', JStr ''Saved'')]) ''error'')"
    by code_simp
  have c: "\<not> truthy (get_prop (resolve_settings (JElem 3) (JObj [(''success'', JFun 1)]))
                      ''customSuccessHandler'')"
    by code_simp
  have s: "get_prop (resolve_settings (JElem 3) (JObj [(''success'', JFun 1)])) ''success''
             = JFun 1"
    by code_simp
  have t: "throws (example_world (Resolves (json_response 200 JNull))) 1 = None"
    by (simp add: example_world_def)
  show ?thesis
    using e c s t
      error_field_skips_success_ui [OF e,
        of "resolve_settings (JElem 3) (JObj [(''success'', JFun 1)])"
           "example_world (Resolves (json_response 200 JNull))"
           "\<lparr>dom = example_page, pending = []\<rparr>"]
    by simp
qed

text \<open>
  C7, counterexample. The server answers 500 with a body that is not JSON. The
  classifier of version 1.2.8 does not build a failure with the status and an empty
  body: it rejects with the decoding error itself, and that is what \<^verbatim>\<open>handleError\<close>
  and then the caller's \<^verbatim>\<open>error\<close> callback (function 1) receive.
\<close>

theorem undecodable_error_body_is_not_wrapped:
  "validateResponse (undecodable_response 500) \<lparr>dom = example_page, pending = []\<rparr> =
     (Inl (Platform JsonSyntaxError), \<lparr>dom = example_page, pending = []\<rparr>, [])
   \<and> events_of (easyAjax V1 (example_world (Resolves (undecodable_response 500)))
        (JObj [(''url'', JStr ''/list''), (''error'', JFun 1)]) example_page) =
     [Dom (SetAttribute 9 ''data-kt-indicator'' ''on''), Dom (SetDisabled 9 True),
      SetTimeout (JNum 5000), Fetch (JStr ''/list'') list_request,
      ConsoleError ''Error in fetch operation:'',
      ToastrError (JStr ''An error occurred. Please try again.''),
      Call 1 [AErr (Platform JsonSyntaxError)],
      ClearTimeout, Dom (RemoveAttribute 9 ''data-kt-indicator''),
      Dom (SetDisabled 9 False)]"
  by code_simp

text \<open>
  C7, as amended. For every response with a status outside 200 to 299:
  \<^verbatim>\<open>validateResponse\<close> decodes the body and rejects with an error that carries the
  status and the decoded body, and when the decoding fails it rejects with the decoding
  error itself. In version 1.2.8 that rejection goes to the chain's \<^verbatim>\<open>catch\<close>:
  \<^verbatim>\<open>handleError\<close> logs it, shows the generic notification and hands it to the
  caller's error callback, so it is not left unhandled. Version 2.0.0 rejects with the
  response, undecoded, before \<^verbatim>\<open>validateResponse\<close> is reached; its \<^verbatim>\<open>handleError\<close>
  starts the decoding of the body when the status is 422 and only then, and shows a
  notification for every other status. The decoding that it starts hands the decoded
  body to the rendering of the validation messages, and a failure of the decoding, or
  of the rendering, is caught and logged.
\<close>

theorem non_2xx_classification:
  "(\<not> ok r \<longrightarrow>
      validateResponse r st =
        (Inl (case json_body r of
                Inr json \<Rightarrow> NetworkError (status r) json
              | Inl e \<Rightarrow> Platform e), st, []))
   \<and> (network w = Resolves r \<and> \<not> ok r \<longrightarrow>
      promise_chain_v1 w S req st =
        try_finally
          (seq (emit (Fetch (get_prop S ''url'') req))
          (seq (emit (ConsoleError ''Error in fetch operation:''))
          (seq (emit (ToastrError (JStr ''An error occurred. Please try again.'')))
               (if truthy (get_prop S ''customErrorHandler'')
                then call w (get_prop S ''customErrorHandler'')
                       [AErr (case json_body r of
                                Inr json \<Rightarrow> NetworkError (status r) json
                              | Inl e \<Rightarrow> Platform e), AVal S]
                else only_if (truthy (get_prop S ''error''))
                       (call w (get_prop S ''error'')
                          [AErr (case json_body r of
                                   Inr json \<Rightarrow> NetworkError (status r) json
                                 | Inl e \<Rightarrow> Platform e)])))))
          (completion w S) st)
   \<and> (network w = Resolves r \<and> \<not> ok r \<longrightarrow>
      promise_chain_v2 w S req st =
        try_finally
          (seq (emit (Fetch (get_prop S ''url'') req))
               (if status r = 422 then schedule (Decode422 r S)
                else emit (ToastrError (JStr ''An unexpected error occurred.''))))
          (completion w S) st)
   \<and> (\<forall>e. json_body r = Inl e \<longrightarrow>
      run_task_v2 w (Decode422 r S) st =
        (Inr (), st, [ConsoleError ''Error parsing JSON response:'']))
   \<and> (\<forall>json. json_body r = Inr json \<longrightarrow>
      run_task_v2 w (Decode422 r S) st =
        try_catch (show_validation_v2 w json S)
          (\<lambda>jsonError. emit (ConsoleError ''Error parsing JSON response:'')) st)"
  by (intro conjI impI allI validateResponse_not_ok v1_failure_status_takes_fallback
        promise_chain_v2_not_ok run_task_v2_undecodable run_task_v2_decoded)
     simp_all

theorem non_2xx_classification_witness:
  "\<not> ok (json_response 404 (JObj [(''message'', JStr ''No such record'')]))
   \<and> validateResponse (json_response 404 (JObj [(''message'', JStr ''No such record'')]))
        \<lparr>dom = example_page, pending = []\<rparr>
      = (Inl (NetworkError 404 (JObj [(''message'', JStr ''No such record'')])),
         \<lparr>dom = example_page, pending = []\<rparr>, [])
   \<and> promise_chain_v2 (example_world (Resolves (json_response 422 validation_body)))
        (resolve_settings (JElem 3) save_options) save_request \<lparr>dom = example_page, pending = []\<rparr>
      = try_finally
          (seq (emit (Fetch (get_prop (resolve_settings (JElem 3) save_options) ''url'') save_request))
               (schedule (Decode422 (json_response 422 validation_body) (resolve_settings (JElem 3) save_options))))
          (completion (example_world (Resolves (json_response 422 validation_body))) (resolve_settings (JElem 3) save_options))
          \<lparr>dom = example_page, pending = []\<rparr>
   \<and> promise_chain_v2 (example_world (Resolves (undecodable_response 500)))
        (resolve_settings (JElem 3) save_options) save_request \<lparr>dom = example_page, pending = []\<rparr>
      = try_finally
          (seq (emit (Fetch (get_prop (resolve_settings (JElem 3) save_options) ''url'') save_request))
               (emit (ToastrError (JStr ''An unexpected error occurred.''))))
          (completion (example_world (Resolves (undecodable_response 500))) (resolve_settings (JElem 3) save_options))
          \<lparr>dom = example_page, pending = []\<rparr>
   \<and> json_body (undecodable_response 422) = Inl JsonSyntaxError
   \<and> run_task_v2 (example_world (Resolves (undecodable_response 422)))
        (Decode422 (undecodable_response 422) (resolve_settings (JElem 3) save_options)) \<lparr>dom = example_page, pending = []\<rparr>
      = (Inr (), \<lparr>dom = example_page, pending = []\<rparr>,
         [ConsoleError ''Error parsing JSON response:''])
   \<and> run_task_v2 (example_world (Resolves (json_response 422 validation_body)))
        (Decode422 (json_response 422 validation_body) (resolve_settings (JElem 3) save_options)) \<lparr>dom = example_page, pending = []\<rparr>
      = try_catch
          (show_validation_v2 (example_world (Resolves (json_response 422 validation_body)))
             validation_body (resolve_settings (JElem 3) save_options))
          (\<lambda>jsonError. emit (ConsoleError ''Error parsing JSON response:'')) \<lparr>dom = example_page, pending = []\<rparr>"
proof -
  have n: "\<not> ok (json_response 404 (JObj [(''message'', JStr ''No such record'')]))"
    "\<not> ok (json_response 422 validation_body)" "\<not> ok (undecodable_response 500)"
    by (simp_all add: ok_def json_response_def undecodable_response_def)
  have j: "json_body (json_response 404 (JObj [(''message'', JStr ''No such record'')]))
             = Inr (JObj [(''message'', JStr ''No such record'')])"
    "json_body (json_response 422 validation_body) = Inr validation_body"
    "json_body (undecodable_response 422) = Inl JsonSyntaxError"
    and s: "status (json_response 404 (JObj [(''message'', JStr ''No such record'')])) = 404"
    "status (json_response 422 validation_body) = 422"
    "status (undecodable_response 500) = 500"
    and w: "network (example_world (Resolves (json_response 422 validation_body)))
              = Resolves (json_response 422 validation_body)"
    "network (example_world (Resolves (undecodable_response 500)))
       = Resolves (undecodable_response 500)"
    by (simp_all add: json_response_def undecodable_response_def example_world_def)
  show ?thesis
    using n j s w
      non_2xx_classification
        [of "json_response 404 (JObj [(''message'', JStr ''No such record'')])"
            "\<lparr>dom = example_page, pending = []\<rparr>"]
      non_2xx_classification
        [of "json_response 422 validation_body" "\<lparr>dom = example_page, pending = []\<rparr>"
            "example_world (Resolves (json_response 422 validation_body))"
            "resolve_settings (JElem 3) save_options" save_request]
      non_2xx_classification
        [of "undecodable_response 500" "\<lparr>dom = example_page, pending = []\<rparr>"
            "example_world (Resolves (undecodable_response 500))"
            "resolve_settings (JElem 3) save_options" save_request]
      non_2xx_classification
        [of "undecodable_response 422" "\<lparr>dom = example_page, pending = []\<rparr>"
            "example_world (Resolves (undecodable_response 422))"
            "resolve_settings (JElem 3) save_options"]
    by simp
qed




text \<open>
  The run of the witness, in full: the submit button, element 9, is restored and
  \<^verbatim>\<open>complete\<close> is called, and throws.
\<close>

lemma completion_when_complete_throws:
  "events_of (easyAjax V2 (example_world (Resolves (undecodable_response 500)))
      (JObj [(''url'', JStr ''/list''), (''complete'', JFun 2)]) example_page) =
     [Dom (SetAttribute 9 ''data-kt-indicator'' ''on''), Dom (SetDisabled 9 True),
      SetTimeout (JNum 5000), Fetch (JStr ''/list'') list_request,
      ToastrError (JStr ''An unexpected error occurred.''),
      ClearTimeout, Dom (RemoveAttribute 9 ''data-kt-indicator''),
      Dom (SetDisabled 9 False), Call 2 [], Unhandled (Error ''boom'')]
   \<and> page_of (easyAjax V2 (example_world (Resolves (undecodable_response 500)))
      (JObj [(''url'', JStr ''/list''), (''complete'', JFun 2)]) example_page)
     = example_page"
  by code_simp

text \<open>
  C9, counterexample. \<^verbatim>\<open>file: true\<close> on a page without a form, with the default
  method \<^verbatim>\<open>GET\<close>: \<^verbatim>\<open>createFormData\<close> is not called, nothing is thrown and the
  request is issued.
\<close>

theorem file_without_form_on_get_is_sent:
  "result_of (easyAjax V2 (example_world (Resolves (json_response 200 JNull)))
      (JObj [(''url'', JStr ''/list''), (''file'', JBool True)]) page_without_form) = Inr ()
   \<and> events_of (easyAjax V2 (example_world (Resolves (json_response 200 JNull)))
      (JObj [(''url'', JStr ''/list''), (''file'', JBool True)]) page_without_form) =
     [Dom (SetAttribute 9 ''data-kt-indicator'' ''on''), Dom (SetDisabled 9 True),
      SetTimeout (JNum 5000), Fetch (JStr ''/list'') list_request,
      ClearTimeout, Dom (RemoveAttribute 9 ''data-kt-indicator''),
      Dom (SetDisabled 9 False)]"
  by code_simp

text \<open>
  C9, as amended. In both versions: when \<^verbatim>\<open>file\<close> is set, the method is neither
  \<^verbatim>\<open>GET\<close> nor \<^verbatim>\<open>HEAD\<close> and the container holds no form element, \<^verbatim>\<open>easyAjax\<close> throws
  and issues no request; and when \<^verbatim>\<open>formReset\<close> is set and the container holds no
  form element, \<^verbatim>\<open>handleSuccess\<close> throws, and shows no success notification.
\<close>

theorem missing_form_raises:
  "(truthy (get_prop (resolve_settings (document_body page) options) ''file'')
      \<and> get_prop (resolve_settings (document_body page) options) ''type'' = JStr t
      \<and> toUpperCase t \<noteq> ''GET'' \<and> toUpperCase t \<noteq> ''HEAD''
      \<and> (\<forall>c. get_prop (resolve_settings (document_body page) options) ''container'' = JElem c
             \<longrightarrow> select_all (ByTag ''form'') c page = []) \<longrightarrow>
      (\<exists>e. result_of (easyAjax v w options page) = Inl e)
      \<and> (\<forall>url req. Fetch url req \<notin> set (events_of (easyAjax v w options page))))
   \<and> (truthy (get_prop settings ''formReset'')
      \<and> (\<forall>c. get_prop settings ''container'' = JElem c
             \<longrightarrow> select_all (ByTag ''form'') c (dom st) = []) \<longrightarrow>
      (\<exists>e. result_of (handleSuccess response settings st) = Inl e)
      \<and> (\<forall>m. ToastrSuccess m \<notin> set (events_of (handleSuccess response settings st))))"
proof (intro conjI impI)
  let ?S = "resolve_settings (document_body page) options"
  let ?st0 = "\<lparr>dom = page, pending = []\<rparr>"
  assume a: "truthy (get_prop ?S ''file'') \<and> get_prop ?S ''type'' = JStr t
      \<and> toUpperCase t \<noteq> ''GET'' \<and> toUpperCase t \<noteq> ''HEAD''
      \<and> (\<forall>c. get_prop ?S ''container'' = JElem c \<longrightarrow> select_all (ByTag ''form'') c page = [])"
  from a have a1: "truthy (get_prop ?S ''file'')" and a2: "get_prop ?S ''type'' = JStr t"
    and a3: "toUpperCase t \<noteq> ''GET''" and a4: "toUpperCase t \<noteq> ''HEAD''"
    by blast+
  have "\<exists>e. result_of (requestOptions ?S (state_of (clearValidationErrors
                     (get_prop ?S ''container'') ?st0))) = Inl e"
  proof (rule requestOptions_no_form [OF a1 a2 a3 a4])
    fix c assume c: "get_prop ?S ''container'' = JElem c"
    with a have "select_all (ByTag ''form'') c (dom ?st0) = []" by simp
    with preserves_no_form [of "''form''" c "get_prop ?S ''container''"]
    show "select_all (ByTag ''form'') c
            (dom (state_of (clearValidationErrors (get_prop ?S ''container'') ?st0))) = []"
      unfolding preserves_def by blast
  qed
  then have r: "(\<exists>e. result_of (easyAjax v w options page) = Inl e)
       \<and> (\<forall>url req. Fetch url req \<notin> set (events_of (easyAjax v w options page)))"
    by (intro easyAjax_raises)
  from r show "\<exists>e. result_of (easyAjax v w options page) = Inl e" by blast
  from r show "\<forall>url req. Fetch url req \<notin> set (events_of (easyAjax v w options page))"
    by blast
next
  assume b: "truthy (get_prop settings ''formReset'')
      \<and> (\<forall>c. get_prop settings ''container'' = JElem c
             \<longrightarrow> select_all (ByTag ''form'') c (dom st) = [])"
  then have r: "(\<exists>e. result_of (handleSuccess response settings st) = Inl e)
       \<and> (\<forall>m. ToastrSuccess m \<notin> set (events_of (handleSuccess response settings st)))"
    by (intro handleSuccess_no_form) simp_all
  from r show "\<exists>e. result_of (handleSuccess response settings st) = Inl e" by blast
  from r show "\<forall>m. ToastrSuccess m \<notin> set (events_of (handleSuccess response settings st))"
    by blast
qed

theorem missing_form_raises_witness:
  "(\<exists>e. result_of (easyAjax V1 (example_world (Resolves (json_response 200 JNull)))
            upload_options page_without_form) = Inl e)
   \<and> (\<forall>url req. Fetch url req \<notin> set (events_of
         (easyAjax V1 (example_world (Resolves (json_response 200 JNull)))
            upload_options page_without_form)))
   \<and> (\<exists>e. result_of (handleSuccess (JObj [(''message'', JStr ''Saved'')])
              (JObj [(''container'', JElem 3), (''formReset'', JBool True),
                     (''showToastrMsg'', JBool True)])
              \<lparr>dom = page_without_form, pending = []\<rparr>) = Inl e)
   \<and> (\<forall>m. ToastrSuccess m \<notin> set (events_of
         (handleSuccess (JObj [(''message'', JStr ''Saved'')])
            (JObj [(''container'', JElem 3), (''formReset'', JBool True),
                   (''showToastrMsg'', JBool True)])
            \<lparr>dom = page_without_form, pending = []\<rparr>)))"
proof -
  let ?S = "resolve_settings (document_body page_without_form) upload_options"
  let ?T = "JObj [(''container'', JElem 3), (''formReset'', JBool True),
                  (''showToastrMsg'', JBool True)]"
  have f: "truthy (get_prop ?S ''file'')"
    by code_simp
  have t: "get_prop ?S ''type'' = JStr ''POST''"
    by code_simp
  have u: "toUpperCase ''POST'' \<noteq> ''GET''" "toUpperCase ''POST'' \<noteq> ''HEAD''"
    by code_simp+
  have c: "get_prop ?S ''container'' = JElem 3"
    by code_simp
  have n: "select_all (ByTag ''form'') 3 page_without_form = []"
    by code_simp
  from c n have cn: "\<forall>c. get_prop ?S ''container'' = JElem c
                       \<longrightarrow> select_all (ByTag ''form'') c page_without_form = []"
    by simp
  have r: "truthy (get_prop ?T ''formReset'')"
    by code_simp
  have c': "get_prop ?T ''container'' = JElem 3"
    by code_simp
  from c' n have cn': "\<forall>c. get_prop ?T ''container'' = JElem c
       \<longrightarrow> select_all (ByTag ''form'') c (dom \<lparr>dom = page_without_form, pending = []\<rparr>) = []"
    by simp
  show ?thesis
    using f t u cn r cn'
      missing_form_raises [of page_without_form upload_options "''POST''" V1
        "example_world (Resolves (json_response 200 JNull))" ?T
        "\<lparr>dom = page_without_form, pending = []\<rparr>" "JObj [(''message'', JStr ''Saved'')]"]
    by blast
qed

text \<open>
  Every event of a run of \<^verbatim>\<open>easyAjax\<close> satisfies a predicate that holds of every
  event but the alert dialog.
\<close>

lemma only_easyAjax:
  assumes "\<And>op. P (Dom op)" "\<And>s. P (ConsoleWarn s)" "\<And>s. P (ConsoleError s)"
    "\<And>v. P (ToastrError v)" "\<And>v. P (ToastrSuccess v)" "\<And>v. P (Navigate v)"
    "\<And>i. P (FormReset i)" "\<And>n a. P (Call n a)" "P ClearTimeout" "\<And>u r. P (Fetch u r)"
    "\<And>v. P (SetTimeout v)" "\<And>e. P (Unhandled e)"
  shows "list_all P (events_of (easyAjax v w options page))"
proof -
  have "only P (seq (clearValidationErrors (get_prop S ''container''))
     (and_then (requestOptions S) (\<lambda>req.
      seq (run_beforeSend w S)
     (seq (emit (SetTimeout (get_prop S ''timeout'')))
     (seq (settle (promise_chain v w S req))
          (and_then take_pending (\<lambda>tasks. for_each tasks (run_task v w))))))))" for S
    by (intro only_seq only_and_then only_clearValidationErrors only_requestOptions
          only_after_request assms)
  then show ?thesis
    by (simp add: only_def easyAjax_unfold Let_def)
qed

text \<open>
  Two calls of \<^verbatim>\<open>easyAjax\<close> whose options differ in \<^verbatim>\<open>showSwalMsg\<close> and
  \<^verbatim>\<open>swalOptions\<close> only run alike.
\<close>

lemma easyAjax_alike:
  assumes "strip_val options = strip_val options'"
  shows "result_of (easyAjax v w options page) = result_of (easyAjax v w options' page)"
    and "page_of (easyAjax v w options page) = page_of (easyAjax v w options' page)"
    and "map strip_event (events_of (easyAjax v w options page))
           = map strip_event (events_of (easyAjax v w options' page))"
proof -
  let ?S = "resolve_settings (document_body page) options"
  let ?S' = "resolve_settings (document_body page) options'"
  have S: "strip_val ?S = strip_val ?S'"
    by (rule strip_resolve_settings [OF assms])
  have a: "alike \<lparr>dom = page, pending = []\<rparr> \<lparr>dom = page, pending = []\<rparr>"
    by (rule alike_refl)
  from sim_body [OF S, of w v] a
  show "result_of (easyAjax v w options page) = result_of (easyAjax v w options' page)"
    and "page_of (easyAjax v w options page) = page_of (easyAjax v w options' page)"
    and "map strip_event (events_of (easyAjax v w options page))
           = map strip_event (events_of (easyAjax v w options' page))"
    unfolding sim_def easyAjax_unfold Let_def page_of_def alike_def
    by blast+
qed

text \<open>
  C10. For every configuration, every page and every outcome of the request, in both
  versions, no run of \<^verbatim>\<open>easyAjax\<close> calls \<^verbatim>\<open>Swal.fire\<close>; and \<^verbatim>\<open>showSwalMsg\<close> and
  \<^verbatim>\<open>swalOptions\<close> have no effect: two calls whose options differ in these two only
  throw or return alike, leave the same page and cause the same events, the settings
  object that the caller's own functions receive apart. (The one function that calls
  \<^verbatim>\<open>Swal.fire\<close>, \<^verbatim>\<open>handleFailure\<close>, is the one function that reads the two settings,
  and nothing calls it.)
\<close>

theorem never_swal:
  "SwalFire x \<notin> set (events_of (easyAjax v w options page))
   \<and> (strip_val options = strip_val options' \<longrightarrow>
        result_of (easyAjax v w options page) = result_of (easyAjax v w options' page)
        \<and> page_of (easyAjax v w options page) = page_of (easyAjax v w options' page)
        \<and> map strip_event (events_of (easyAjax v w options page))
            = map strip_event (events_of (easyAjax v w options' page)))"
proof (intro conjI impI)
  have "list_all (\<lambda>e. \<not> is_swal e) (events_of (easyAjax v w options page))"
    by (rule only_easyAjax) simp_all
  then show "SwalFire x \<notin> set (events_of (easyAjax v w options page))"
    by (auto simp: list_all_iff)
next
  assume a: "strip_val options = strip_val options'"
  show "result_of (easyAjax v w options page) = result_of (easyAjax v w options' page)"
    by (rule easyAjax_alike(1) [OF a])
  show "page_of (easyAjax v w options page) = page_of (easyAjax v w options' page)"
    by (rule easyAjax_alike(2) [OF a])
  show "map strip_event (events_of (easyAjax v w options page))
            = map strip_event (events_of (easyAjax v w options' page))"
    by (rule easyAjax_alike(3) [OF a])
qed

theorem never_swal_witness:
  "strip_val (JObj [(''url'', JStr ''/list''), (''showSwalMsg'', JBool False),
                    (''customSuccessHandler'', JFun 1),
                    (''swalOptions'', JObj [(''title'', JStr ''Oops'')])])
     = strip_val (JObj [(''url'', JStr ''/list''), (''customSuccessHandler'', JFun 1)])
   \<and> (\<forall>x. SwalFire x \<notin> set (events_of
        (easyAjax V2 (example_world (Resolves (json_response 200 (JObj []))))
           (JObj [(''url'', JStr ''/list''), (''showSwalMsg'', JBool False),
                  (''customSuccessHandler'', JFun 1),
                  (''swalOptions'', JObj [(''title'', JStr ''Oops'')])]) example_page)))
   \<and> map strip_event (events_of
        (easyAjax V2 (example_world (Resolves (json_response 200 (JObj []))))
           (JObj [(''url'', JStr ''/list''), (''showSwalMsg'', JBool False),
                  (''customSuccessHandler'', JFun 1),
                  (''swalOptions'', JObj [(''title'', JStr ''Oops'')])]) example_page))
     = map strip_event (events_of
        (easyAjax V2 (example_world (Resolves (json_response 200 (JObj []))))
           (JObj [(''url'', JStr ''/list''), (''customSuccessHandler'', JFun 1)])
           example_page))"
proof -
  have h: "strip_val (JObj [(''url'', JStr ''/list''), (''showSwalMsg'', JBool False),
                    (''customSuccessHandler'', JFun 1),
                    (''swalOptions'', JObj [(''title'', JStr ''Oops'')])])
     = strip_val (JObj [(''url'', JStr ''/list''), (''customSuccessHandler'', JFun 1)])"
    by code_simp
  show ?thesis
    using h never_swal [of _ V2 "example_world (Resolves (json_response 200 (JObj [])))"
        "JObj [(''url'', JStr ''/list''), (''showSwalMsg'', JBool False),
               (''customSuccessHandler'', JFun 1),
               (''swalOptions'', JObj [(''title'', JStr ''Oops'')])]" example_page
        "JObj [(''url'', JStr ''/list''), (''customSuccessHandler'', JFun 1)]"]
    by blast
qed

text \<open>
  \<^verbatim>\<open>handleFailure\<close> itself does call \<^verbatim>\<open>Swal.fire\<close>, with \<^verbatim>\<open>swalOptions\<close> and the
  message, when \<^verbatim>\<open>showSwalMsg\<close> is set and the library is loaded.
\<close>

lemma handleFailure_fires:
  "events_of (handleFailure (example_world (Resolves (undecodable_response 500)))
      (JObj [(''message'', JStr ''Server down'')])
      (JObj [(''showToastrMsg'', JBool False), (''showSwalMsg'', JBool True),
             (''swalOptions'', JObj [(''title'', JStr ''Oops'')])])
      (JStr ''error'') \<lparr>dom = example_page, pending = []\<rparr>) =
     [SwalFire (JObj [(''title'', JStr ''Oops''), (''text'', JStr ''Server down''),
                      (''icon'', JStr ''error'')])]"
  by code_simp

end
